theory Spec2Isabelle
  imports Complex_Main
begin

section \<open>Errors\<close>

text \<open>
  Every \<^verbatim>\<open>raise\<close>, failed \<^verbatim>\<open>assert\<close> and failing library call of the modelled Python
  is a value of this type. Floating-point numbers of the source are modelled as reals:
  all the inputs evaluated below are exactly representable and their results are exact.
\<close>

datatype error =
    ValueError string
  | TypeError string
  | KeyError string
  | AttributeError string
  | AssertionError string
  | LockedError
  | NotEnoughSpace "real \<times> real" "real \<times> real" real real

section \<open>Transformations\<close>

text \<open>
  \<^verbatim>\<open>kdb.Trans\<close> and \<^verbatim>\<open>kdb.DCplxTrans\<close> come from the klayout library. The port model only
  copies, compares, multiplies and converts them; the definitions below follow klayout's
  documented semantics (a transformation mirrors at the x axis first, then rotates, then
  displaces; \<^verbatim>\<open>A * B\<close> applies \<^verbatim>\<open>B\<close> first).
\<close>

record Trans =
  t_rot :: nat
  t_mirror :: bool
  t_disp :: "int \<times> int"

record DCplxTrans =
  c_mag :: real
  c_angle :: real
  c_mirror :: bool
  c_disp :: "real \<times> real"

definition fix_apply :: "nat \<Rightarrow> bool \<Rightarrow> int \<times> int \<Rightarrow> int \<times> int" where
  "fix_apply r m v =
     (let x = fst v; y = (if m then - snd v else snd v) in
      if r mod 4 = 0 then (x, y)
      else if r mod 4 = 1 then (- y, x)
      else if r mod 4 = 2 then (- x, - y)
      else (y, - x))"

definition trans_mult :: "Trans \<Rightarrow> Trans \<Rightarrow> Trans" where
  "trans_mult a b =
     \<lparr> t_rot = (if t_mirror a then (t_rot a mod 4 + 4 - t_rot b mod 4) mod 4
                else (t_rot a + t_rot b) mod 4),
       t_mirror = (t_mirror a \<noteq> t_mirror b),
       t_disp = (fst (t_disp a) + fst (fix_apply (t_rot a) (t_mirror a) (t_disp b)),
                 snd (t_disp a) + snd (fix_apply (t_rot a) (t_mirror a) (t_disp b))) \<rparr>"

definition R0 :: Trans where
  "R0 = \<lparr> t_rot = 0, t_mirror = False, t_disp = (0, 0) \<rparr>"

text \<open>Python's \<^verbatim>\<open>%\<close> on floats with a positive right operand.\<close>

definition py_mod :: "real \<Rightarrow> real \<Rightarrow> real" where
  "py_mod a m = a - m * of_int \<lfloor>a / m\<rfloor>"

definition deg2rad :: "real \<Rightarrow> real" where
  "deg2rad a = a * pi / 180"

definition ctrans_vec :: "DCplxTrans \<Rightarrow> real \<times> real \<Rightarrow> real \<times> real" where
  "ctrans_vec t v =
     (let x = fst v; y = (if c_mirror t then - snd v else snd v);
          co = cos (deg2rad (c_angle t)); si = sin (deg2rad (c_angle t)) in
      (c_mag t * (co * x - si * y), c_mag t * (si * x + co * y)))"

definition ctrans_mult :: "DCplxTrans \<Rightarrow> DCplxTrans \<Rightarrow> DCplxTrans" where
  "ctrans_mult a b =
     \<lparr> c_mag = c_mag a * c_mag b,
       c_angle = py_mod (c_angle a + (if c_mirror a then - c_angle b else c_angle b)) 360,
       c_mirror = (c_mirror a \<noteq> c_mirror b),
       c_disp = (fst (c_disp a) + fst (ctrans_vec a (c_disp b)),
                 snd (c_disp a) + snd (ctrans_vec a (c_disp b))) \<rparr>"

text \<open>\<^verbatim>\<open>DCplxTrans.is_complex()\<close>: a magnification, or a rotation that is no multiple of 90 degrees.\<close>

definition is_complex :: "DCplxTrans \<Rightarrow> bool" where
  "is_complex t = (c_mag t \<noteq> 1 \<or> py_mod (c_angle t) 90 \<noteq> 0)"

text \<open>klayout rounds a coordinate to the nearest integer, halves away from zero.\<close>

definition kround :: "real \<Rightarrow> int" where
  "kround x = (if 0 < x then \<lfloor>x + 1 / 2\<rfloor> else \<lceil>x - 1 / 2\<rceil>)"

record KCLayout =
  kcl_dbu :: real
  kcl_get_info :: "nat \<Rightarrow> nat \<times> nat"

definition to_dbu :: "KCLayout \<Rightarrow> real \<times> real \<Rightarrow> int \<times> int" where
  "to_dbu k v = (kround (fst v / kcl_dbu k), kround (snd v / kcl_dbu k))"

definition to_um :: "KCLayout \<Rightarrow> int \<times> int \<Rightarrow> real \<times> real" where
  "to_um k v = (of_int (fst v) * kcl_dbu k, of_int (snd v) * kcl_dbu k)"

text \<open>\<^verbatim>\<open>kdb.DCplxTrans(t.to_dtype(dbu))\<close>\<close>

definition to_dtype :: "KCLayout \<Rightarrow> Trans \<Rightarrow> DCplxTrans" where
  "to_dtype k t =
     \<lparr> c_mag = 1, c_angle = 90 * of_nat (t_rot t mod 4), c_mirror = t_mirror t,
       c_disp = to_um k (t_disp t) \<rparr>"

text \<open>\<^verbatim>\<open>kdb.ICplxTrans(d, dbu).s_trans()\<close>: the quadrant of the rotation and the rounded displacement.\<close>

definition s_trans :: "KCLayout \<Rightarrow> DCplxTrans \<Rightarrow> Trans" where
  "s_trans k d =
     \<lparr> t_rot = nat \<lfloor>py_mod (c_angle d) 360 / 90\<rfloor>, t_mirror = c_mirror d,
       t_disp = to_dbu k (c_disp d) \<rparr>"

section \<open>Ports (port.py)\<close>

record CrossSection =
  cs_main_layer :: "nat \<times> nat"
  cs_width :: int

text \<open>\<^verbatim>\<open>class BasePort\<close>, lines 103-110: both transformations are optional fields.\<close>

record BasePort =
  bp_name :: "string option"
  bp_kcl :: KCLayout
  bp_cross_section :: CrossSection
  bp_trans :: "Trans option"
  bp_dcplx_trans :: "DCplxTrans option"
  bp_info :: "(string \<times> string) list"
  bp_port_type :: string

text \<open>
  \<^verbatim>\<open>Port\<close> and \<^verbatim>\<open>DPort\<close> are two views holding a reference \<^verbatim>\<open>_base\<close> to a \<^verbatim>\<open>BasePort\<close>
  object. Objects live in a store, a list indexed by address; a setter updates the
  object in place and \<^verbatim>\<open>BasePort.__copy__\<close> allocates a new one.
\<close>

type_synonym store = "BasePort list"

datatype port = Port nat | DPort nat

fun base_addr :: "port \<Rightarrow> nat" where
  "base_addr (Port a) = a"
| "base_addr (DPort a) = a"

definition base :: "store \<Rightarrow> port \<Rightarrow> BasePort option" where
  "base h p = (if base_addr p < length h then Some (h ! base_addr p) else None)"

definition upd_base :: "store \<Rightarrow> port \<Rightarrow> (BasePort \<Rightarrow> BasePort) \<Rightarrow> store" where
  "upd_base h p f =
     (if base_addr p < length h then h[base_addr p := f (h ! base_addr p)] else h)"

text \<open>\<^verbatim>\<open>ProtoPort.__eq__\<close>, lines 274-278.\<close>

definition port_eq :: "store \<Rightarrow> port \<Rightarrow> port \<Rightarrow> bool" where
  "port_eq h self other =
     (case other of
        Port b \<Rightarrow> base h self = base h (Port b)
      | DPort b \<Rightarrow> False)"

text \<open>The \<^verbatim>\<open>trans\<close> getter, lines 290-300, and the \<^verbatim>\<open>dcplx_trans\<close> getter, lines 306-317.\<close>

definition get_trans :: "BasePort \<Rightarrow> error + Trans" where
  "get_trans b =
     (case bp_trans b of
        Some t \<Rightarrow> Inr t
      | None \<Rightarrow>
          (case bp_dcplx_trans b of
             Some d \<Rightarrow> Inr (s_trans (bp_kcl b) d)
           | None \<Rightarrow> Inl (TypeError ''ICplxTrans(None, dbu)'')))"

definition get_dcplx_trans :: "BasePort \<Rightarrow> error + DCplxTrans" where
  "get_dcplx_trans b =
     (case bp_dcplx_trans b of
        Some d \<Rightarrow> Inr d
      | None \<Rightarrow>
          (case get_trans b of
             Inl e \<Rightarrow> Inl e
           | Inr t \<Rightarrow> Inr (to_dtype (bp_kcl b) t)))"

definition port_trans :: "store \<Rightarrow> port \<Rightarrow> error + Trans" where
  "port_trans h p =
     (case base h p of None \<Rightarrow> Inl (AttributeError ''_base'') | Some b \<Rightarrow> get_trans b)"

text \<open>The \<^verbatim>\<open>trans\<close> setter, lines 302-304.\<close>

definition set_trans :: "store \<Rightarrow> port \<Rightarrow> Trans \<Rightarrow> store" where
  "set_trans h p v = upd_base h p (\<lambda>b. b\<lparr>bp_trans := Some v\<rparr>)"

text \<open>The \<^verbatim>\<open>dcplx_trans\<close> setter, lines 319-326.\<close>

definition set_dcplx_trans :: "store \<Rightarrow> port \<Rightarrow> DCplxTrans \<Rightarrow> store" where
  "set_dcplx_trans h p v =
     upd_base h p (\<lambda>b.
       if is_complex v \<or> c_disp v \<noteq> to_um (bp_kcl b) (to_dbu (bp_kcl b) (c_disp v))
       then b\<lparr>bp_dcplx_trans := Some v\<rparr>
       else b\<lparr>bp_trans := Some (s_trans (bp_kcl b) v)\<rparr>)"

text \<open>
  \<^verbatim>\<open>BasePort.transformed\<close>, lines 123-146. The two arguments are a \<^verbatim>\<open>kdb.Trans\<close> or a
  \<^verbatim>\<open>kdb.DCplxTrans\<close>; \<^verbatim>\<open>__copy__\<close> (lines 112-121) duplicates both stored transformations.
\<close>

datatype anytrans = STrans Trans | CTrans DCplxTrans

fun as_dcplx :: "KCLayout \<Rightarrow> anytrans \<Rightarrow> DCplxTrans" where
  "as_dcplx k (STrans t) = to_dtype k t"
| "as_dcplx k (CTrans d) = d"

definition transformed :: "BasePort \<Rightarrow> anytrans \<Rightarrow> anytrans \<Rightarrow> error + BasePort" where
  "transformed self tr post_tr =
     (case (bp_trans self, tr, post_tr) of
        (Some bt, STrans t, STrans pt) \<Rightarrow>
          Inr (self\<lparr>bp_trans := Some (trans_mult (trans_mult t bt) pt)\<rparr>)
      | _ \<Rightarrow>
          (let t = as_dcplx (bp_kcl self) tr;
               pt = as_dcplx (bp_kcl self) post_tr in
           case bp_dcplx_trans self of
             Some d \<Rightarrow>
               Inr (self\<lparr>bp_trans := None,
                          bp_dcplx_trans := Some (ctrans_mult (ctrans_mult t d) pt)\<rparr>)
           | None \<Rightarrow>
               (case bp_trans self of
                  None \<Rightarrow> Inl (AttributeError ''to_dtype'')
                | Some bt \<Rightarrow>
                    Inr (self\<lparr>bp_trans := None,
                               bp_dcplx_trans :=
                                 Some (ctrans_mult
                                         (ctrans_mult t (to_dtype (bp_kcl self) bt)) pt)\<rparr>))))"

text \<open>\<^verbatim>\<open>Port.copy\<close>, lines 720-738: a new \<^verbatim>\<open>Port\<close> around the transformed copy of the base.\<close>

definition Port_copy :: "store \<Rightarrow> port \<Rightarrow> anytrans \<Rightarrow> anytrans \<Rightarrow> error + store \<times> port" where
  "Port_copy h self tr post_tr =
     (case base h self of
        None \<Rightarrow> Inl (AttributeError ''_base'')
      | Some b \<Rightarrow>
          (case transformed b tr post_tr of
             Inl e \<Rightarrow> Inl e
           | Inr b' \<Rightarrow> Inr (h @ [b'], Port (length h))))"

section \<open>Route synthesis (routing/aa/optical.py)\<close>

subsection \<open>Geometry\<close>

text \<open>
  Points and vectors are pairs of numbers. The source computes with IEEE doubles. A
  double is a real number, and the operations of the machine and of the libraries on
  doubles (the rounded sum, difference and remainder, \<^verbatim>\<open>np.rad2deg(np.arctan2(y, x))\<close>,
  the length of a vector, the product of a transformation and a vector,
  \<^verbatim>\<open>DEdge.cut_point\<close>) are functions on such numbers. The model takes them as
  parameters, the record \<open>float_ops\<close> below: what is proved for every \<open>float_ops\<close> holds
  for the operations of the machine, as long as no operation gives an infinity or a NaN.
  The definitions of this subsection are the same operations without rounding; they make
  up \<open>exact_ops\<close>, which stands for the machine only where the text says so.
\<close>

type_synonym DPoint = "real \<times> real"

definition vsub :: "DPoint \<Rightarrow> DPoint \<Rightarrow> DPoint" where
  "vsub p q = (fst p - fst q, snd p - snd q)"

definition vadd :: "DPoint \<Rightarrow> DPoint \<Rightarrow> DPoint" where
  "vadd p q = (fst p + fst q, snd p + snd q)"

definition vlength :: "DPoint \<Rightarrow> real" where
  "vlength v = sqrt (fst v * fst v + snd v * snd v)"

definition arctan2 :: "real \<Rightarrow> real \<Rightarrow> real" where
  "arctan2 y x =
     (if 0 < x then arctan (y / x)
      else if x < 0 then (if 0 \<le> y then arctan (y / x) + pi else arctan (y / x) - pi)
      else if 0 < y then pi / 2
      else if y < 0 then - (pi / 2)
      else 0)"

definition rad2deg :: "real \<Rightarrow> real" where
  "rad2deg r = r * 180 / pi"

text \<open>\<^verbatim>\<open>_angle\<close>, lines 27-28, without rounding.\<close>

definition angle_deg :: "DPoint \<Rightarrow> real" where
  "angle_deg v = rad2deg (arctan2 (snd v) (fst v))"

definition cut_point :: "DPoint \<times> DPoint \<Rightarrow> DPoint \<times> DPoint \<Rightarrow> DPoint option" where
  "cut_point e1 e2 =
     (let d1 = vsub (snd e1) (fst e1); d2 = vsub (snd e2) (fst e2);
          w = vsub (fst e2) (fst e1);
          den = fst d1 * snd d2 - snd d1 * fst d2 in
      if den = 0 then None
      else (let t = (fst w * snd d2 - snd w * fst d2) / den in
            Some (fst (fst e1) + t * fst d1, snd (fst e1) + t * snd d1)))"

text \<open>
  The operations on doubles that \<^verbatim>\<open>route\<close> uses: \<^verbatim>\<open>+\<close>, \<^verbatim>\<open>-\<close> and \<^verbatim>\<open>%\<close> on floats,
  \<^verbatim>\<open>_angle\<close> (lines 27-28), \<^verbatim>\<open>DVector.length\<close>, the difference and the sum of points and
  vectors, \<^verbatim>\<open>DCplxTrans * DVector\<close> and \<^verbatim>\<open>DEdge.cut_point\<close>.
\<close>

record float_ops =
  fo_add :: "real \<Rightarrow> real \<Rightarrow> real"
  fo_sub :: "real \<Rightarrow> real \<Rightarrow> real"
  fo_mod :: "real \<Rightarrow> real \<Rightarrow> real"
  fo_angle :: "DPoint \<Rightarrow> real"
  fo_length :: "DPoint \<Rightarrow> real"
  fo_vsub :: "DPoint \<Rightarrow> DPoint \<Rightarrow> DPoint"
  fo_vadd :: "DPoint \<Rightarrow> DPoint \<Rightarrow> DPoint"
  fo_trans_vec :: "DCplxTrans \<Rightarrow> DPoint \<Rightarrow> DPoint"
  fo_cut_point :: "DPoint \<times> DPoint \<Rightarrow> DPoint \<times> DPoint \<Rightarrow> DPoint option"

definition exact_ops :: float_ops where
  "exact_ops =
     \<lparr> fo_add = (\<lambda>a b. a + b), fo_sub = (\<lambda>a b. a - b), fo_mod = py_mod,
       fo_angle = angle_deg, fo_length = vlength, fo_vsub = vsub, fo_vadd = vadd,
       fo_trans_vec = ctrans_vec, fo_cut_point = cut_point \<rparr>"

subsection \<open>Cells, instances and the factories\<close>

text \<open>
  A generated element is a cell with named ports; a port is kept as the value of its
  \<^verbatim>\<open>dcplx_trans\<close> getter. The cell routed in (\<^verbatim>\<open>c\<close>) has a lock flag and the list of its
  virtual instances (\<^verbatim>\<open>VKCell.create_inst\<close>, kcell.py lines 2898-2905).
  The cursor \<^verbatim>\<open>_port\<close> of the route is the start port or a named port of an instance of
  \<^verbatim>\<open>c\<close>, given by the index of the instance.
\<close>

record VKCell =
  vk_name :: string
  vk_ports :: "(string \<times> DCplxTrans) list"

datatype port_ref = StartPort | InstPort nat string

record VInstance =
  vi_cell :: VKCell
  vi_connect :: "(string \<times> port_ref) option"

record VCell =
  vc_kcl :: KCLayout
  vc_locked :: bool
  vc_insts :: "VInstance list"

definition create_inst :: "VCell \<Rightarrow> VKCell \<Rightarrow> error + VCell \<times> nat" where
  "create_inst c cell =
     (if vc_locked c then Inl LockedError
      else Inr (c\<lparr>vc_insts := vc_insts c @ [\<lparr> vi_cell = cell, vi_connect = None \<rparr>]\<rparr>,
                length (vc_insts c)))"

definition port_of :: "VKCell \<Rightarrow> string \<Rightarrow> error + DCplxTrans" where
  "port_of cell n = (case map_of (vk_ports cell) n of None \<Rightarrow> Inl (KeyError n) | Some t \<Rightarrow> Inr t)"

text \<open>
  Modelled from the spec: \<^verbatim>\<open>VInstance.connect\<close> and \<^verbatim>\<open>VInstance.ports\<close> (instance.py is not
  part of the sources). Section 4.6: every placement is connected edge to edge, the entry
  port of the new element onto the current cursor port, and routing goes on from the exit
  port of the element. The model records which port was connected to which cursor; the
  placement transformation itself is not computed. A port name the cell does not have
  is a \<^verbatim>\<open>KeyError\<close>.
\<close>

definition connect :: "VCell \<Rightarrow> nat \<Rightarrow> VKCell \<Rightarrow> string \<Rightarrow> port_ref \<Rightarrow> error + VCell \<times> VInstance" where
  "connect c i cell entry cur =
     (case port_of cell entry of
        Inl e \<Rightarrow> Inl e
      | Inr _ \<Rightarrow>
          (let inst = \<lparr> vi_cell = cell, vi_connect = Some (entry, cur) \<rparr>
           in Inr (c\<lparr>vc_insts := (vc_insts c)[i := inst]\<rparr>, inst)))"

definition inst_port :: "nat \<Rightarrow> VKCell \<Rightarrow> string \<Rightarrow> error + port_ref" where
  "inst_port i cell n =
     (case port_of cell n of Inl e \<Rightarrow> Inl e | Inr _ \<Rightarrow> Inr (InstPort i n))"

text \<open>
  \<^verbatim>\<open>x = c << cell; x.connect(entry, _port); _port = x.ports[exit]\<close>, the pattern of lines
  122-124, 128-134 and 150-152. An exception leaves \<^verbatim>\<open>c\<close> as it is at that moment.
\<close>

definition place ::
  "VCell \<Rightarrow> VKCell \<Rightarrow> string \<Rightarrow> string \<Rightarrow> port_ref \<Rightarrow> error \<times> VCell + VCell \<times> VInstance \<times> port_ref" where
  "place c cell entry exit cur =
     (case create_inst c cell of
        Inl e \<Rightarrow> Inl (e, c)
      | Inr (c1, i) \<Rightarrow>
          (case connect c1 i cell entry cur of
             Inl e \<Rightarrow> Inl (e, c1)
           | Inr (c2, inst) \<Rightarrow>
               (case inst_port i cell exit of
                  Inl e \<Rightarrow> Inl (e, c2)
                | Inr p \<Rightarrow> Inr (c2, inst, p))))"

text \<open>
  The factories are deterministic functions of width and angle or length (section 6 of
  the specification). Every call of a factory is written to a log, which the source does
  not have: it is there to count the calls.
\<close>

datatype fcall = BendCall real real | StraightCall real real

fun is_bend_call :: "fcall \<Rightarrow> bool" where
  "is_bend_call (BendCall w a) = True"
| "is_bend_call (StraightCall w l) = False"

record route_args =
  ra_ops :: float_ops
  ra_width :: real
  ra_straight_factory :: "real \<Rightarrow> real \<Rightarrow> VKCell"
  ra_bend_factory :: "real \<Rightarrow> real \<Rightarrow> VKCell"
  ra_bend_ports :: "string \<times> string"
  ra_straight_ports :: "string \<times> string"

subsection \<open>The loop of \<^verbatim>\<open>route\<close>\<close>

text \<open>The local variables of \<^verbatim>\<open>route\<close>, lines 46 and 68-72, with the cell and the log.\<close>

record route_state =
  rs_cell :: VCell
  rs_bends :: "(real \<times> VKCell) list"
  rs_old_pt :: DPoint
  rs_pt :: DPoint
  rs_start_offset :: real
  rs_effective_radius :: real
  rs_port :: port_ref
  rs_insts :: "VInstance list"
  rs_calls :: "fcall list"

text \<open>
  Lines 76-80: the signed turn angle \<^verbatim>\<open>_a = (e_a - s_a + 180) % 360 - 180\<close>, as the
  operations on doubles give it.
\<close>

definition turn_angle :: "float_ops \<Rightarrow> DPoint \<Rightarrow> DPoint \<Rightarrow> DPoint \<Rightarrow> real" where
  "turn_angle fo old_pt pt new_pt =
     (let s_a = fo_angle fo (fo_vsub fo pt old_pt);
          e_a = fo_angle fo (fo_vsub fo new_pt pt)
      in fo_sub fo (fo_mod fo (fo_add fo (fo_sub fo e_a s_a) 180) 360) 180)"

text \<open>
  Lines 84-86: the dictionary \<^verbatim>\<open>bends\<close> is looked up and filled under the key \<^verbatim>\<open>_a\<close>, the
  signed angle; the factory is called with \<^verbatim>\<open>abs(_a)\<close>.
\<close>

definition get_bend :: "route_args \<Rightarrow> route_state \<Rightarrow> real \<Rightarrow> route_state \<times> VKCell" where
  "get_bend ra st a =
     (case map_of (rs_bends st) a of
        Some b \<Rightarrow> (st, b)
      | None \<Rightarrow>
          (let b = ra_bend_factory ra (ra_width ra) \<bar>a\<bar>
           in (st\<lparr>rs_bends := rs_bends st @ [(a, b)],
                  rs_calls := rs_calls st @ [BendCall (ra_width ra) \<bar>a\<bar>]\<rparr>, b)))"

text \<open>Lines 88-106: the distance from the first port of the bend to the cut point.\<close>

definition effective_radius :: "float_ops \<Rightarrow> string \<times> string \<Rightarrow> VKCell \<Rightarrow> error + real" where
  "effective_radius fo bp bend =
     (case port_of bend (fst bp) of
        Inl e \<Rightarrow> Inl e
      | Inr dt1 \<Rightarrow>
          (case port_of bend (snd bp) of
             Inl e \<Rightarrow> Inl e
           | Inr dt2 \<Rightarrow>
               (let v = (1, 0);
                    dp11 = c_disp dt1; dp21 = c_disp dt2;
                    dp12 = fo_vadd fo dp11 (fo_trans_vec fo dt1 v);
                    dp22 = fo_vadd fo dp21 (fo_trans_vec fo dt2 v)
                in case fo_cut_point fo (dp11, dp12) (dp21, dp22) of
                     None \<Rightarrow> Inl (TypeError ''NoneType - DPoint'')
                   | Some cp \<Rightarrow> Inr (fo_length fo (fo_vsub fo cp (c_disp dt1))))))"

text \<open>Lines 122-125 and 150-153.\<close>

definition place_straight :: "route_args \<Rightarrow> route_state \<Rightarrow> real \<Rightarrow> error \<times> route_state + route_state" where
  "place_straight ra st l =
     (let cell = ra_straight_factory ra (ra_width ra) l;
          st1 = st\<lparr>rs_calls := rs_calls st @ [StraightCall (ra_width ra) l]\<rparr>
      in case place (rs_cell st1) cell (fst (ra_straight_ports ra)) (snd (ra_straight_ports ra))
                (rs_port st1) of
           Inl (e, c) \<Rightarrow> Inl (e, st1\<lparr>rs_cell := c\<rparr>)
         | Inr (c, inst, p) \<Rightarrow>
             Inr (st1\<lparr>rs_cell := c, rs_port := p, rs_insts := rs_insts st1 @ [inst]\<rparr>))"

text \<open>Lines 128-135: a negative turn enters the bend at its second port.\<close>

definition place_bend :: "route_args \<Rightarrow> route_state \<Rightarrow> VKCell \<Rightarrow> real \<Rightarrow> error \<times> route_state + route_state" where
  "place_bend ra st bend a =
     (let entry = (if a < 0 then snd (ra_bend_ports ra) else fst (ra_bend_ports ra));
          exit = (if a < 0 then fst (ra_bend_ports ra) else snd (ra_bend_ports ra))
      in case place (rs_cell st) bend entry exit (rs_port st) of
           Inl (e, c) \<Rightarrow> Inl (e, st\<lparr>rs_cell := c\<rparr>)
         | Inr (c, inst, p) \<Rightarrow>
             Inr (st\<lparr>rs_cell := c, rs_port := p, rs_insts := rs_insts st @ [inst]\<rparr>))"

text \<open>
  Lines 82-117: the bend and its effective radius when the turn is not zero; the check of
  lines 110-115 stands inside this branch. The error of lines 111-115 and 144-148 is a
  \<^verbatim>\<open>ValueError\<close> whose message gives the two points, the needed and the available
  space; it is the constructor \<open>NotEnoughSpace\<close>.
\<close>

definition bend_for_turn ::
  "route_args \<Rightarrow> route_state \<Rightarrow> real \<Rightarrow> error \<times> route_state + route_state \<times> VKCell option \<times> real" where
  "bend_for_turn ra st a =
     (if a \<noteq> 0 then
        (case get_bend ra st a of
           (st1, bend) \<Rightarrow>
             (case effective_radius (ra_ops ra) (ra_bend_ports ra) bend of
                Inl e \<Rightarrow> Inl (e, st1)
              | Inr r \<Rightarrow>
                  if fo_sub (ra_ops ra)
                       (fo_sub (ra_ops ra)
                          (fo_length (ra_ops ra) (fo_vsub (ra_ops ra) (rs_pt st1) (rs_old_pt st1))) r)
                       (rs_start_offset st1) < 0
                  then Inl (NotEnoughSpace (rs_old_pt st1) (rs_pt st1)
                              (fo_add (ra_ops ra) (rs_start_offset st1) r)
                              (fo_length (ra_ops ra)
                                 (fo_vsub (ra_ops ra) (rs_pt st1) (rs_old_pt st1))), st1)
                  else Inr (st1\<lparr>rs_effective_radius := r\<rparr>, Some bend, r)))
      else Inr (st\<lparr>rs_effective_radius := 0\<rparr>, None, 0))"

text \<open>One iteration of the loop, lines 74-138.\<close>

definition route_step :: "route_args \<Rightarrow> route_state \<Rightarrow> DPoint \<Rightarrow> error \<times> route_state + route_state" where
  "route_step ra st new_pt =
     (let a = turn_angle (ra_ops ra) (rs_old_pt st) (rs_pt st) new_pt in
      case bend_for_turn ra st a of
        Inl e \<Rightarrow> Inl e
      | Inr (st1, bend, r) \<Rightarrow>
          (let l = fo_sub (ra_ops ra)
                     (fo_sub (ra_ops ra)
                        (fo_length (ra_ops ra) (fo_vsub (ra_ops ra) (rs_pt st1) (rs_old_pt st1))) r)
                     (rs_start_offset st1) in
           case (if l > 0 then place_straight ra st1 l else Inr st1) of
             Inl e \<Rightarrow> Inl e
           | Inr st2 \<Rightarrow>
               (case (case bend of None \<Rightarrow> Inr st2 | Some b \<Rightarrow> place_bend ra st2 b a) of
                  Inl e \<Rightarrow> Inl e
                | Inr st3 \<Rightarrow>
                    Inr (st3\<lparr>rs_start_offset := r, rs_old_pt := rs_pt st3,
                             rs_pt := new_pt\<rparr>))))"

fun route_loop :: "route_args \<Rightarrow> route_state \<Rightarrow> DPoint list \<Rightarrow> error \<times> route_state + route_state" where
  "route_loop ra st [] = Inr st"
| "route_loop ra st (p # ps) =
     (case route_step ra st p of Inl e \<Rightarrow> Inl e | Inr st' \<Rightarrow> route_loop ra st' ps)"

text \<open>Lines 139-153: the closing straight.\<close>

definition route_close :: "route_args \<Rightarrow> route_state \<Rightarrow> error \<times> route_state + route_state" where
  "route_close ra st =
     (let l = fo_sub (ra_ops ra)
                (fo_length (ra_ops ra) (fo_vsub (ra_ops ra) (rs_pt st) (rs_old_pt st)))
                (rs_effective_radius st) in
      if l < 0 then
        Inl (NotEnoughSpace (rs_old_pt st) (rs_pt st) (rs_effective_radius st)
               (fo_length (ra_ops ra) (fo_vsub (ra_ops ra) (rs_pt st) (rs_old_pt st))), st)
      else if l > 0 then place_straight ra st l
      else Inr st)"

text \<open>
  Lines 68-153, from the first two waypoints on. The loop runs at least once when
  the backbone has three points, so the initial value of \<open>rs_effective_radius\<close> is never
  read.
\<close>

definition route_placement ::
  "route_args \<Rightarrow> VCell \<Rightarrow> DPoint \<Rightarrow> DPoint \<Rightarrow> DPoint list \<Rightarrow> error \<times> route_state + route_state" where
  "route_placement ra c p0 p1 rest =
     (case route_loop ra
             \<lparr> rs_cell = c, rs_bends = [], rs_old_pt = p0, rs_pt = p1, rs_start_offset = 0,
               rs_effective_radius = 0, rs_port = StartPort, rs_insts = [], rs_calls = [] \<rparr>
             rest of
        Inl e \<Rightarrow> Inl e
      | Inr st \<Rightarrow> route_close ra st)"

subsection \<open>\<^verbatim>\<open>Port.__init__\<close> and \<^verbatim>\<open>route\<close>\<close>

text \<open>
  \<^verbatim>\<open>Port.__init__\<close>, port.py lines 630-713, takes keyword arguments only. A call is the
  list of its keywords with their values; a keyword that is no parameter of the function
  is Python's \<^verbatim>\<open>TypeError\<close>. Transformations given as strings and the \<^verbatim>\<open>info\<close> dictionary
  are left out.
\<close>

datatype pyarg =
    AStr string
  | AFloat real
  | AInt int
  | ABool bool
  | APair int int
  | ATrans Trans
  | ADCplx DCplxTrans
  | AKcl KCLayout
  | ALayerInfo "nat \<times> nat"
  | ACross CrossSection
  | ABase BasePort

definition Port_params :: "string list" where
  "Port_params =
     [''name'', ''width'', ''layer'', ''layer_info'', ''port_type'', ''trans'', ''dcplx_trans'',
      ''angle'', ''center'', ''mirror_x'', ''port'', ''kcl'', ''info'', ''cross_section'', ''base'']"

fun as_str :: "pyarg option \<Rightarrow> string option" where
  "as_str (Some (AStr x)) = Some x"
| "as_str _ = None"

fun as_int :: "pyarg option \<Rightarrow> int option" where
  "as_int (Some (AInt x)) = Some x"
| "as_int _ = None"

fun as_pair :: "pyarg option \<Rightarrow> (int \<times> int) option" where
  "as_pair (Some (APair x y)) = Some (x, y)"
| "as_pair _ = None"

fun as_trans :: "pyarg option \<Rightarrow> Trans option" where
  "as_trans (Some (ATrans x)) = Some x"
| "as_trans _ = None"

fun as_dcplx_trans :: "pyarg option \<Rightarrow> DCplxTrans option" where
  "as_dcplx_trans (Some (ADCplx x)) = Some x"
| "as_dcplx_trans _ = None"

fun as_kcl :: "pyarg option \<Rightarrow> KCLayout option" where
  "as_kcl (Some (AKcl x)) = Some x"
| "as_kcl _ = None"

fun as_layer_info :: "pyarg option \<Rightarrow> (nat \<times> nat) option" where
  "as_layer_info (Some (ALayerInfo x)) = Some x"
| "as_layer_info _ = None"

fun as_cross_section :: "pyarg option \<Rightarrow> CrossSection option" where
  "as_cross_section (Some (ACross x)) = Some x"
| "as_cross_section _ = None"

fun as_base :: "pyarg option \<Rightarrow> BasePort option" where
  "as_base (Some (ABase x)) = Some x"
| "as_base _ = None"

text \<open>Lines 660-674.\<close>

definition init_cross_section :: "KCLayout \<Rightarrow> (string \<times> pyarg) list \<Rightarrow> error + CrossSection" where
  "init_cross_section k kw =
     (case as_cross_section (map_of kw ''cross_section'') of
        Some cs \<Rightarrow> Inr cs
      | None \<Rightarrow>
          (case (case as_layer_info (map_of kw ''layer_info'') of
                   Some li \<Rightarrow> Inr li
                 | None \<Rightarrow>
                     (case as_int (map_of kw ''layer'') of
                        Some l \<Rightarrow> Inr (kcl_get_info k (nat l))
                      | None \<Rightarrow> Inl (ValueError ''layer or layer_info for a port must be defined''))) of
             Inl e \<Rightarrow> Inl e
           | Inr li \<Rightarrow>
               (case as_int (map_of kw ''width'') of
                  Some w \<Rightarrow> Inr \<lparr> cs_main_layer = li, cs_width = w \<rparr>
                | None \<Rightarrow> Inl (ValueError ''any width and layer, or a cross_section must be given''))))"

text \<open>Lines 675-713.\<close>

definition init_transformation :: "(string \<times> pyarg) list \<Rightarrow> BasePort \<Rightarrow> error + BasePort" where
  "init_transformation kw b =
     (case as_trans (map_of kw ''trans'') of
        Some t \<Rightarrow> Inr (b\<lparr>bp_trans := Some t\<rparr>)
      | None \<Rightarrow>
          (case as_dcplx_trans (map_of kw ''dcplx_trans'') of
             Some d \<Rightarrow> Inr (b\<lparr>bp_dcplx_trans := Some d\<rparr>)
           | None \<Rightarrow>
               (case as_int (map_of kw ''angle'') of
                  Some a \<Rightarrow>
                    (case as_pair (map_of kw ''center'') of
                       Some xy \<Rightarrow>
                         Inr (b\<lparr>bp_trans :=
                               Some \<lparr> t_rot = nat a,
                                      t_mirror = (map_of kw ''mirror_x'' = Some (ABool True)),
                                      t_disp = xy \<rparr>\<rparr>)
                     | None \<Rightarrow> Inl (AssertionError ''center is not None''))
                | None \<Rightarrow> Inl (ValueError ''Missing port parameters given''))))"

definition Port_init :: "KCLayout \<Rightarrow> (string \<times> pyarg) list \<Rightarrow> error + BasePort" where
  "Port_init default_kcl kw =
     (case filter (\<lambda>k. k \<notin> set Port_params) (map fst kw) of
        k # _ \<Rightarrow> Inl (TypeError (''Port.__init__() got an unexpected keyword argument '' @ k))
      | [] \<Rightarrow>
          (case as_base (map_of kw ''base'') of
             Some b \<Rightarrow> Inr b
           | None \<Rightarrow>
               (case as_base (map_of kw ''port'') of
                  Some b \<Rightarrow> Inr b
                | None \<Rightarrow>
                    (let k = (case as_kcl (map_of kw ''kcl'') of Some k \<Rightarrow> k | None \<Rightarrow> default_kcl) in
                     case init_cross_section k kw of
                       Inl e \<Rightarrow> Inl e
                     | Inr cs \<Rightarrow>
                         init_transformation kw
                           \<lparr> bp_name = as_str (map_of kw ''name''),
                             bp_kcl = k, bp_cross_section = cs,
                             bp_trans = None, bp_dcplx_trans = None, bp_info = [],
                             bp_port_type = (case as_str (map_of kw ''port_type'') of
                                               Some t \<Rightarrow> t | None \<Rightarrow> ''optical'') \<rparr>))))"

record OpticalAllAngleRoute =
  oar_backbone :: "DPoint list"
  oar_start_port :: BasePort
  oar_end_port :: BasePort
  oar_instances :: "VInstance list"

text \<open>
  \<^verbatim>\<open>route\<close>, lines 32-158, for given operations on doubles. The result comes with the
  cell as the call leaves it and with the log of the factory calls, also when the call
  raises. The two ports of lines 53-66
  are built with the keywords \<^verbatim>\<open>name\<close>, \<^verbatim>\<open>dwidth\<close>, \<^verbatim>\<open>layer\<close>, \<^verbatim>\<open>dcplx_trans\<close> and \<^verbatim>\<open>kcl\<close>.
\<close>

definition route_port_kwargs :: "VCell \<Rightarrow> real \<Rightarrow> int \<Rightarrow> real \<Rightarrow> DPoint \<Rightarrow> (string \<times> pyarg) list" where
  "route_port_kwargs c width layer ang p =
     [(''name'', AStr ''o1''), (''dwidth'', AFloat width), (''layer'', AInt layer),
      (''dcplx_trans'', ADCplx \<lparr> c_mag = 1, c_angle = ang, c_mirror = False, c_disp = p \<rparr>),
      (''kcl'', AKcl (vc_kcl c))]"

definition route ::
  "KCLayout \<Rightarrow> float_ops \<Rightarrow> VCell \<Rightarrow> real \<Rightarrow> int \<Rightarrow> DPoint list
     \<Rightarrow> (real \<Rightarrow> real \<Rightarrow> VKCell) \<Rightarrow> (real \<Rightarrow> real \<Rightarrow> VKCell)
     \<Rightarrow> string \<times> string \<Rightarrow> string \<times> string
     \<Rightarrow> (error + OpticalAllAngleRoute) \<times> VCell \<times> fcall list" where
  "route default_kcl fo c width layer backbone straight_factory bend_factory bend_ports
         straight_ports =
     (if length backbone < 3 then
        (Inl (ValueError ''All angle routes with less than 3 points are not supported.''), c, [])
      else
        (let start_v = fo_vsub fo (backbone ! 1) (backbone ! 0);
             end_v = fo_vsub fo (last backbone) (backbone ! (length backbone - 2));
             start_angle = fo_angle fo start_v;
             end_angle = fo_mod fo (fo_add fo (fo_angle fo end_v) 180) 360
         in case Port_init default_kcl (route_port_kwargs c width layer start_angle (backbone ! 0)) of
              Inl e \<Rightarrow> (Inl e, c, [])
            | Inr start_port \<Rightarrow>
                (case Port_init default_kcl
                        (route_port_kwargs c width layer end_angle (last backbone)) of
                   Inl e \<Rightarrow> (Inl e, c, [])
                 | Inr end_port \<Rightarrow>
                     (case route_placement
                             \<lparr> ra_ops = fo, ra_width = width,
                               ra_straight_factory = straight_factory,
                               ra_bend_factory = bend_factory, ra_bend_ports = bend_ports,
                               ra_straight_ports = straight_ports \<rparr>
                             c (backbone ! 0) (backbone ! 1) (drop 2 backbone) of
                        Inl (e, st) \<Rightarrow> (Inl e, rs_cell st, rs_calls st)
                      | Inr st \<Rightarrow>
                          (Inr \<lparr> oar_backbone = backbone, oar_start_port = start_port,
                                 oar_end_port = end_port, oar_instances = rs_insts st \<rparr>,
                           rs_cell st, rs_calls st)))))"

section \<open>Connectivity (kcell.py)\<close>

subsection \<open>Ports as the extraction reads them\<close>

text \<open>
  \<^verbatim>\<open>circuit\<close> and \<^verbatim>\<open>connectivity_check\<close> read the ports of the cell and of its instances
  through \<^verbatim>\<open>Ports(kcl=..., bases=...)\<close>. A port enters the model as the values of the
  properties the two functions read: \<^verbatim>\<open>name\<close>, \<^verbatim>\<open>trans\<close>, \<^verbatim>\<open>width\<close>, \<^verbatim>\<open>layer\<close>,
  \<^verbatim>\<open>port_type\<close>, and whether \<^verbatim>\<open>_base.trans\<close> is set. \<^verbatim>\<open>x\<close> and \<^verbatim>\<open>y\<close> are the displacement
  of \<^verbatim>\<open>trans\<close>. An instance is its name, the name of its cell and its ports.
\<close>

record PortView =
  pv_name :: "string option"
  pv_trans :: Trans
  pv_width :: int
  pv_layer :: nat
  pv_port_type :: string
  pv_stored_simple :: bool

record InstView =
  iv_name :: "string option"
  iv_cell_name :: string
  iv_ports :: "PortView list"

text \<open>
  Python dictionaries keep the order of insertion; they are association lists with
  distinct keys. \<open>dict_upd\<close> changes the value of a key or appends the key.
\<close>

fun dict_upd :: "'k \<Rightarrow> ('v option \<Rightarrow> 'v) \<Rightarrow> ('k \<times> 'v) list \<Rightarrow> ('k \<times> 'v) list" where
  "dict_upd k f [] = [(k, f None)]"
| "dict_upd k f ((k', v) # xs) =
     (if k = k' then (k', f (Some v)) # xs else (k', v) # dict_upd k f xs)"

text \<open>\<^verbatim>\<open>d[a][b].append(x)\<close>, creating \<^verbatim>\<open>d[a]\<close> and \<^verbatim>\<open>d[a][b]\<close> when they are missing.\<close>

definition dict_append2 ::
  "'a \<Rightarrow> 'b \<Rightarrow> 'c \<Rightarrow> ('a \<times> ('b \<times> 'c list) list) list \<Rightarrow> ('a \<times> ('b \<times> 'c list) list) list" where
  "dict_append2 a b x d =
     dict_upd a
       (\<lambda>m. dict_upd b (\<lambda>l. (case l of None \<Rightarrow> [] | Some ys \<Rightarrow> ys) @ [x])
               (case m of None \<Rightarrow> [] | Some m' \<Rightarrow> m'))
       d"

text \<open>\<^verbatim>\<open>a in d and b in d[a]\<close>, with the value.\<close>

definition lookup2 :: "('a \<times> ('b \<times> 'c) list) list \<Rightarrow> 'a \<Rightarrow> 'b \<Rightarrow> 'c option" where
  "lookup2 d a b = (case map_of d a of None \<Rightarrow> None | Some m \<Rightarrow> map_of m b)"

text \<open>The buckets of a two-level dictionary in the order of the two nested loops.\<close>

definition buckets :: "('a \<times> ('b \<times> 'c) list) list \<Rightarrow> ('a \<times> 'b \<times> 'c) list" where
  "buckets d = concat (map (\<lambda>am. map (\<lambda>bc. (fst am, fst bc, snd bc)) (snd am)) d)"

text \<open>\<^verbatim>\<open>enumerate\<close>.\<close>

definition enumerate_from0 :: "'a list \<Rightarrow> (nat \<times> 'a) list" where
  "enumerate_from0 xs = zip [0 ..< length xs] xs"

text \<open>
  \<^verbatim>\<open>name or str(i)\<close>: the name when it is set and not empty, else the index. Names of nets
  and pins are kept as their parts; the source joins them with \<^verbatim>\<open>_\<close> and \<^verbatim>\<open>-\<close>.
\<close>

datatype name_part = Named string | Indexed nat

definition name_or :: "string option \<Rightarrow> nat \<Rightarrow> name_part" where
  "name_or n i = (case n of None \<Rightarrow> Indexed i | Some s \<Rightarrow> if s = [] then Indexed i else Named s)"

subsection \<open>\<^verbatim>\<open>port_check\<close> (port.py lines 66-90)\<close>

record PortCheck =
  pc_opposite :: bool
  pc_width :: bool
  pc_layer :: bool
  pc_port_type :: bool

definition all_opposite :: PortCheck where
  "all_opposite = \<lparr> pc_opposite = True, pc_width = True, pc_layer = True, pc_port_type = True \<rparr>"

definition all_overlap :: PortCheck where
  "all_overlap = \<lparr> pc_opposite = False, pc_width = True, pc_layer = True, pc_port_type = True \<rparr>"

definition R180 :: Trans where
  "R180 = \<lparr> t_rot = 2, t_mirror = False, t_disp = (0, 0) \<rparr>"

definition M0 :: Trans where
  "M0 = \<lparr> t_rot = 0, t_mirror = True, t_disp = (0, 0) \<rparr>"

definition M90 :: Trans where
  "M90 = \<lparr> t_rot = 2, t_mirror = True, t_disp = (0, 0) \<rparr>"

definition port_check :: "PortView \<Rightarrow> PortView \<Rightarrow> PortCheck \<Rightarrow> error + unit" where
  "port_check p1 p2 checks =
     (if pc_opposite checks
         \<and> \<not> (pv_trans p1 = trans_mult (pv_trans p2) R180
               \<or> pv_trans p1 = trans_mult (pv_trans p2) M90)
      then Inl (AssertionError ''Transformations of ports not matching for opposite check'')
      else if \<not> pc_opposite checks
         \<and> \<not> (pv_trans p1 = pv_trans p2 \<or> pv_trans p1 = trans_mult (pv_trans p2) M0)
      then Inl (AssertionError ''Transformations of ports not matching for overlapping check'')
      else if pc_width checks \<and> pv_width p1 \<noteq> pv_width p2
      then Inl (AssertionError ''Width mismatch'')
      else if pc_layer checks \<and> pv_layer p1 \<noteq> pv_layer p2
      then Inl (AssertionError ''Layer mismatch'')
      else if pc_port_type checks \<and> pv_port_type p1 \<noteq> pv_port_type p2
      then Inl (AssertionError ''Port type mismatch'')
      else Inr ())"

subsection \<open>\<^verbatim>\<open>circuit\<close> (lines 1549-1684)\<close>

text \<open>
  The calls that build the circuit, in order. The circuit is added to the netlist by the
  last statement only (line 1684): when \<^verbatim>\<open>circuit\<close> raises, nothing is added.
\<close>

datatype net_name =
    CellNet "name_part list"
  | InstNet "(name_part \<times> name_part) list"

datatype nl_op =
    CreateNet net_name
  | CreatePin name_part
  | ConnectPin name_part net_name
  | CreateSubcircuit nat name_part
  | SubcConnectPin nat name_part net_name

type_synonym cell_entry = "nat \<times> PortView"
type_synonym inst_entry = "nat \<times> nat \<times> string option \<times> PortView"

text \<open>
  Lines 1573-1597. The key \<^verbatim>\<open>h\<close> is the text of the two coordinates of the displacement,
  which setting the angle and the mirror flag does not change, and the layer key is the
  text of layer and datatype; the keys are kept as the pairs of numbers.
\<close>

fun cell_port_buckets ::
  "KCLayout \<Rightarrow> cell_entry list \<Rightarrow> string list
     \<Rightarrow> ((int \<times> int) \<times> ((nat \<times> nat) \<times> cell_entry list) list) list
     \<Rightarrow> error + ((int \<times> int) \<times> ((nat \<times> nat) \<times> cell_entry list) list) list" where
  "cell_port_buckets k [] portnames d = Inr d"
| "cell_port_buckets k ((i, p) # ps) portnames d =
     (if (case pv_name p of None \<Rightarrow> False | Some n \<Rightarrow> n \<in> set portnames)
      then Inl (ValueError ''Netlist extraction is not possible with colliding port names.'')
      else cell_port_buckets k ps
             (case pv_name p of
                None \<Rightarrow> portnames
              | Some n \<Rightarrow> if n = [] then portnames else n # portnames)
             (dict_append2 (t_disp (pv_trans p)) (kcl_get_info k (pv_layer p)) (i, p) d))"

text \<open>Lines 1600-1607.\<close>

definition cell_bucket_ops :: "cell_entry list \<Rightarrow> nl_op list" where
  "cell_bucket_ops ports =
     (let net = CellNet (map (\<lambda>ip. name_or (pv_name (snd ip)) (fst ip)) ports)
      in CreateNet net
         # concat (map (\<lambda>ip. [CreatePin (name_or (pv_name (snd ip)) (fst ip)),
                               ConnectPin (name_or (pv_name (snd ip)) (fst ip)) net]) ports))"

text \<open>Lines 1610-1634.\<close>

definition subcircuit_ops :: "InstView list \<Rightarrow> nl_op list" where
  "subcircuit_ops insts =
     map (\<lambda>ii. CreateSubcircuit (fst ii)
                 (case iv_name (snd ii) of
                    None \<Rightarrow> Indexed (fst ii)
                  | Some n \<Rightarrow> if n = [] then Indexed (fst ii) else Named n))
         (enumerate_from0 insts)"

definition inst_entries :: "string list \<Rightarrow> InstView list \<Rightarrow> inst_entry list" where
  "inst_entries port_types insts =
     concat (map (\<lambda>ii. map (\<lambda>jp. (fst ii, fst jp, iv_name (snd ii), snd jp))
                          (filter (\<lambda>jp. pv_port_type (snd jp) \<in> set port_types)
                             (enumerate_from0 (iv_ports (snd ii)))))
                 (enumerate_from0 insts))"

definition inst_port_buckets ::
  "KCLayout \<Rightarrow> inst_entry list \<Rightarrow> ((int \<times> int) \<times> ((nat \<times> nat) \<times> inst_entry list) list) list" where
  "inst_port_buckets k es =
     foldl (\<lambda>d e. dict_append2 (t_disp (pv_trans (snd (snd (snd e)))))
                     (kcl_get_info k (pv_layer (snd (snd (snd e))))) e d)
           [] es"

text \<open>Lines 1666-1671 and 1680-1683.\<close>

definition inst_net :: "inst_entry list \<Rightarrow> net_name" where
  "inst_net ports =
     InstNet (map (\<lambda>e. (name_or (fst (snd (snd e))) (fst e),
                          name_or (pv_name (snd (snd (snd e)))) (fst (snd e)))) ports)"

definition inst_pin_op :: "net_name \<Rightarrow> inst_entry \<Rightarrow> nl_op" where
  "inst_pin_op net e =
     SubcConnectPin (fst e) (name_or (pv_name (snd (snd (snd e)))) (fst (snd e))) net"

text \<open>
  The body of the loop of lines 1638-1683 for one bucket of instance ports: lines
  1640-1663 when the cell has ports at the position and layer, lines 1664-1683 otherwise.
\<close>

definition connect_bucket ::
  "((int \<times> int) \<times> ((nat \<times> nat) \<times> cell_entry list) list) list
     \<Rightarrow> int \<times> int \<Rightarrow> nat \<times> nat \<Rightarrow> inst_entry list \<Rightarrow> error + nl_op list" where
  "connect_bucket cell_ports h layer ports =
     (case lookup2 cell_ports h layer of
        Some cellports \<Rightarrow>
          (if length cellports \<noteq> 1
           then Inl (AssertionError
                  ''Netlists with directly connect cell ports are currently not supported'')
           else if length ports \<noteq> 1
           then Inl (AssertionError ''Multiple instance ports connected to the cell port'')
           else (case (cellports, ports) of
                   ([cp], [e]) \<Rightarrow>
                     (case port_check (snd cp) (snd (snd (snd e))) all_overlap of
                        Inl err \<Rightarrow> Inl err
                      | Inr _ \<Rightarrow>
                          Inr [inst_pin_op (CellNet [name_or (pv_name (snd cp)) (fst cp)]) e])
                 | _ \<Rightarrow> Inl (AssertionError ''unreachable'')))
      | None \<Rightarrow>
          (if \<not> length ports \<le> 2
           then Inl (AssertionError
                  ''Optical connection with more than two ports are not supported'')
           else (case ports of
                   [e1, e2] \<Rightarrow>
                     (case port_check (snd (snd (snd e1))) (snd (snd (snd e2))) all_opposite of
                        Inl err \<Rightarrow> Inl err
                      | Inr _ \<Rightarrow>
                          Inr (CreateNet (inst_net ports) # map (inst_pin_op (inst_net ports)) ports))
                 | _ \<Rightarrow> Inr [CreateNet (inst_net ports)])))"

fun connect_buckets ::
  "((int \<times> int) \<times> ((nat \<times> nat) \<times> cell_entry list) list) list
     \<Rightarrow> ((int \<times> int) \<times> (nat \<times> nat) \<times> inst_entry list) list \<Rightarrow> error + nl_op list" where
  "connect_buckets cell_ports [] = Inr []"
| "connect_buckets cell_ports ((h, layer, ports) # bs) =
     (case connect_bucket cell_ports h layer ports of
        Inl e \<Rightarrow> Inl e
      | Inr ops \<Rightarrow>
          (case connect_buckets cell_ports bs of
             Inl e \<Rightarrow> Inl e
           | Inr ops' \<Rightarrow> Inr (ops @ ops')))"

definition circuit ::
  "KCLayout \<Rightarrow> PortView list \<Rightarrow> InstView list \<Rightarrow> string list \<Rightarrow> error + nl_op list" where
  "circuit k ports insts port_types =
     (case cell_port_buckets k
             (filter (\<lambda>ip. pv_port_type (snd ip) \<in> set port_types) (enumerate_from0 ports))
             [] [] of
        Inl e \<Rightarrow> Inl e
      | Inr cell_ports \<Rightarrow>
          (case connect_buckets cell_ports
                  (buckets (inst_port_buckets k (inst_entries port_types insts))) of
             Inl e \<Rightarrow> Inl e
           | Inr ops \<Rightarrow>
               Inr (concat (map (\<lambda>b. cell_bucket_ops (snd (snd b))) (buckets cell_ports))
                    @ subcircuit_ops insts @ ops)))"

subsection \<open>\<^verbatim>\<open>connectivity_check\<close> (lines 1686-2038)\<close>

text \<open>
  An item of the report: the layer of its category, the name of the sub-category, the
  ports named in its text (with the name of their cell) and the ports whose polygon is
  added. The checks of physical shapes under the cell ports (lines 1770-1821) and of
  layer overlaps (lines 2039-2112) read the shapes of the layout and are not modelled;
  they add no item to the categories below.
\<close>

record diagnostic =
  dg_layer :: nat
  dg_category :: string
  dg_names :: "(string \<times> PortView) list"
  dg_polygons :: "PortView list"

text \<open>The filter of lines 1740-1742 and 1828-1830.\<close>

definition selected :: "string list \<Rightarrow> nat list \<Rightarrow> PortView \<Rightarrow> bool" where
  "selected port_types layers p =
     ((port_types = [] \<or> pv_port_type p \<in> set port_types)
      \<and> (layers = [] \<or> pv_layer p \<in> set layers))"

text \<open>Lines 1762-1769 and 1826-1840: the dictionaries are keyed by layer, then by position.\<close>

definition check_cell_buckets ::
  "string list \<Rightarrow> nat list \<Rightarrow> PortView list \<Rightarrow> (nat \<times> ((int \<times> int) \<times> PortView list) list) list" where
  "check_cell_buckets port_types layers ports =
     foldl (\<lambda>d p. dict_append2 (pv_layer p) (t_disp (pv_trans p)) p d) []
           (filter (selected port_types layers) ports)"

definition check_inst_buckets ::
  "string list \<Rightarrow> nat list \<Rightarrow> InstView list
     \<Rightarrow> (nat \<times> ((int \<times> int) \<times> (PortView \<times> string) list) list) list" where
  "check_inst_buckets port_types layers insts =
     foldl (\<lambda>d pc. dict_append2 (pv_layer (fst pc)) (t_disp (pv_trans (fst pc))) pc d) []
           (concat (map (\<lambda>i. map (\<lambda>p. (p, iv_cell_name i))
                                (filter (selected port_types layers) (iv_ports i))) insts))"

text \<open>
  \<^verbatim>\<open>create_port_error\<close> (port.py lines 45-63): the names when both are set, and the two
  polygons.
\<close>

definition create_port_error ::
  "nat \<Rightarrow> string \<Rightarrow> PortView \<Rightarrow> PortView \<Rightarrow> string \<Rightarrow> string \<Rightarrow> diagnostic" where
  "create_port_error layer cat p1 p2 c1 c2 =
     \<lparr> dg_layer = layer, dg_category = cat,
       dg_names = (if name_or (pv_name p1) 0 \<noteq> Indexed 0 \<and> name_or (pv_name p2) 0 \<noteq> Indexed 0
                   then [(c1, p1), (c2, p2)] else []),
       dg_polygons = [p1, p2] \<rparr>"

text \<open>
  The three tests on the bits of the result of \<^verbatim>\<open>check_cell_ports\<close> or
  \<^verbatim>\<open>check_inst_ports\<close> (lines 1851-1893 and 1920-1962). The two functions are imported
  from a module that is not part of the sources; they are parameters of the model.
\<close>

definition mismatch_items ::
  "nat \<Rightarrow> nat \<Rightarrow> PortView \<Rightarrow> PortView \<Rightarrow> string \<Rightarrow> string \<Rightarrow> diagnostic list" where
  "mismatch_items bits layer p1 p2 c1 c2 =
     (if odd bits then [create_port_error layer ''WidthMismatch'' p1 p2 c1 c2] else [])
     @ (if odd (bits div 2) then [create_port_error layer ''AngleMismatch'' p1 p2 c1 c2] else [])
     @ (if odd (bits div 4) then [create_port_error layer ''TypeMismatch'' p1 p2 c1 c2] else [])"

record check_env =
  ce_cell_name :: string
  ce_check_cell_ports :: "PortView \<Rightarrow> PortView \<Rightarrow> nat"
  ce_check_inst_ports :: "PortView \<Rightarrow> PortView \<Rightarrow> nat"
  ce_loop_port :: PortView

text \<open>
  The body of the loop of lines 1844-2038 for one bucket. In the orphan branch, line 1914
  reads the variable \<^verbatim>\<open>port\<close>, which is the last port the loop of line 1827 has visited
  (\<open>ce_loop_port\<close>), when the port of the bucket has no simple transformation stored.
\<close>

definition check_bucket ::
  "check_env \<Rightarrow> (nat \<times> ((int \<times> int) \<times> PortView list) list) list
     \<Rightarrow> nat \<Rightarrow> int \<times> int \<Rightarrow> (PortView \<times> string) list \<Rightarrow> error + diagnostic list" where
  "check_bucket env cell_ports layer coord ports =
     (case ports of
        [] \<Rightarrow> Inl (ValueError ''Unexpected number of ports: 0'')
      | [pc] \<Rightarrow>
          (case lookup2 cell_ports layer coord of
             Some (cp # _) \<Rightarrow>
               Inr (mismatch_items (ce_check_cell_ports env cp (fst pc)) layer
                      (fst pc) cp (snd pc) (ce_cell_name env))
           | Some [] \<Rightarrow> Inl (ValueError ''IndexError'')
           | None \<Rightarrow>
               Inr [\<lparr> dg_layer = layer, dg_category = ''OrphanPort'',
                      dg_names = [(snd pc, fst pc)],
                      dg_polygons = [if pv_stored_simple (fst pc) then fst pc
                                     else ce_loop_port env] \<rparr>])
      | [pc1, pc2] \<Rightarrow>
          Inr (mismatch_items (ce_check_inst_ports env (fst pc1) (fst pc2)) layer
                 (fst pc1) (fst pc2) (snd pc1) (snd pc2)
               @ (case lookup2 cell_ports layer coord of
                    Some (cp # _) \<Rightarrow>
                      [\<lparr> dg_layer = layer, dg_category = ''portoverlap'',
                         dg_names = (ce_cell_name env, cp) # map (\<lambda>pc. (snd pc, fst pc)) ports,
                         dg_polygons = cp # map fst ports \<rparr>]
                  | _ \<Rightarrow> []))
      | _ \<Rightarrow>
          Inr [\<lparr> dg_layer = layer, dg_category = ''portoverlap'',
                 dg_names = map (\<lambda>pc. (snd pc, fst pc)) ports,
                 dg_polygons = map fst ports \<rparr>])"

fun check_buckets ::
  "check_env \<Rightarrow> (nat \<times> ((int \<times> int) \<times> PortView list) list) list
     \<Rightarrow> (nat \<times> (int \<times> int) \<times> (PortView \<times> string) list) list \<Rightarrow> error + diagnostic list" where
  "check_buckets env cell_ports [] = Inr []"
| "check_buckets env cell_ports ((layer, coord, ports) # bs) =
     (case check_bucket env cell_ports layer coord ports of
        Inl e \<Rightarrow> Inl e
      | Inr ds \<Rightarrow>
          (case check_buckets env cell_ports bs of
             Inl e \<Rightarrow> Inl e
           | Inr ds' \<Rightarrow> Inr (ds @ ds')))"

text \<open>
  The items \<^verbatim>\<open>connectivity_check\<close> creates for the buckets of instance ports, with
  \<^verbatim>\<open>recursive=False\<close>. The loop variable of line 1827 ends as the last port of the last
  instance that has one.
\<close>

definition connectivity_check ::
  "string \<Rightarrow> (PortView \<Rightarrow> PortView \<Rightarrow> nat) \<Rightarrow> (PortView \<Rightarrow> PortView \<Rightarrow> nat)
     \<Rightarrow> PortView list \<Rightarrow> InstView list \<Rightarrow> string list \<Rightarrow> nat list \<Rightarrow> error + diagnostic list" where
  "connectivity_check name ccp cip ports insts port_types layers =
     (case concat (map iv_ports insts) of
        [] \<Rightarrow> Inr []
      | p # ps \<Rightarrow>
          check_buckets
            \<lparr> ce_cell_name = name, ce_check_cell_ports = ccp, ce_check_inst_ports = cip,
              ce_loop_port = last (p # ps) \<rparr>
            (check_cell_buckets port_types layers ports)
            (buckets (check_inst_buckets port_types layers insts)))"

section \<open>Example values\<close>

text \<open>A layout with a grid of one nanometre, and ports on it.\<close>

definition kcl0 :: KCLayout where
  "kcl0 = \<lparr> kcl_dbu = 1 / 1000, kcl_get_info = (\<lambda>l. (l, 0)) \<rparr>"

definition simple_base :: BasePort where
  "simple_base = \<lparr> bp_name = Some ''o1'', bp_kcl = kcl0,
     bp_cross_section = \<lparr> cs_main_layer = (1, 0), cs_width = 1000 \<rparr>,
     bp_trans = Some R0, bp_dcplx_trans = None, bp_info = [], bp_port_type = ''optical'' \<rparr>"

definition rot45 :: DCplxTrans where
  "rot45 = \<lparr> c_mag = 1, c_angle = 45, c_mirror = False, c_disp = (0, 0) \<rparr>"

definition rot90_at_1 :: DCplxTrans where
  "rot90_at_1 = \<lparr> c_mag = 1, c_angle = 90, c_mirror = False, c_disp = (1, 0) \<rparr>"

definition complex_base :: BasePort where
  "complex_base = simple_base\<lparr> bp_trans := None, bp_dcplx_trans := Some rot45 \<rparr>"

text \<open>
  A bend whose two port rays meet at distance 5 from its first port, a bend factory that
  returns it, a straight factory whose element has its ports at the distance asked for,
  and an unlocked empty cell. The examples are evaluated with \<open>exact_ops\<close>, on backbones
  that run along the axes with small whole coordinates: there the operations on doubles
  give the same turn angles, 0, 90 and -90.
\<close>

definition bend_cell :: VKCell where
  "bend_cell = \<lparr> vk_name = ''bend'',
     vk_ports = [(''o1'', \<lparr> c_mag = 1, c_angle = 180, c_mirror = False, c_disp = (0, 0) \<rparr>),
                 (''o2'', \<lparr> c_mag = 1, c_angle = 90, c_mirror = False, c_disp = (5, 5) \<rparr>)] \<rparr>"

definition bend_ex :: "real \<Rightarrow> real \<Rightarrow> VKCell" where
  "bend_ex w a = bend_cell"

definition straight_ex :: "real \<Rightarrow> real \<Rightarrow> VKCell" where
  "straight_ex w l = \<lparr> vk_name = ''straight'',
     vk_ports = [(''o1'', \<lparr> c_mag = 1, c_angle = 180, c_mirror = False, c_disp = (0, 0) \<rparr>),
                 (''o2'', \<lparr> c_mag = 1, c_angle = 0, c_mirror = False, c_disp = (l, 0) \<rparr>)] \<rparr>"

definition cell0 :: VCell where
  "cell0 = \<lparr> vc_kcl = kcl0, vc_locked = False, vc_insts = [] \<rparr>"

definition args_ex :: route_args where
  "args_ex = \<lparr> ra_ops = exact_ops, ra_width = 1, ra_straight_factory = straight_ex,
       ra_bend_factory = bend_ex,
       ra_bend_ports = (''o1'', ''o2''), ra_straight_ports = (''o1'', ''o2'') \<rparr>"

text \<open>Two ports at the same point that face each other, a third one elsewhere, and instances with one port.\<close>

definition port_east :: PortView where
  "port_east = \<lparr> pv_name = Some ''o1'',
      pv_trans = \<lparr> t_rot = 0, t_mirror = False, t_disp = (10, 0) \<rparr>,
      pv_width = 1000, pv_layer = 0, pv_port_type = ''optical'', pv_stored_simple = True \<rparr>"

definition port_west :: PortView where
  "port_west = port_east\<lparr> pv_name := Some ''o2'',
      pv_trans := \<lparr> t_rot = 2, t_mirror = False, t_disp = (10, 0) \<rparr> \<rparr>"

definition port_far :: PortView where
  "port_far = port_east\<lparr> pv_trans := \<lparr> t_rot = 0, t_mirror = False, t_disp = (50, 0) \<rparr> \<rparr>"

definition inst_with :: "string \<Rightarrow> PortView \<Rightarrow> InstView" where
  "inst_with n p = \<lparr> iv_name = Some n, iv_cell_name = ''wg'', iv_ports = [p] \<rparr>"

text \<open>Three instances: two ports meet and face each other, the third is alone.\<close>

definition three_insts :: "InstView list" where
  "three_insts = [inst_with ''a'' port_east, inst_with ''b'' port_west, inst_with ''d'' port_far]"

text \<open>
  Four instances: three ports meet at one point, the fourth is alone. A comparison of
  ports that reports no mismatch stands for the two absent functions.
\<close>

definition four_insts :: "InstView list" where
  "four_insts = [inst_with ''a'' port_east, inst_with ''b'' port_west,
                 inst_with ''c'' port_east, inst_with ''d'' port_far]"

definition no_mismatch :: "PortView \<Rightarrow> PortView \<Rightarrow> nat" where
  "no_mismatch p q = 0"

section \<open>Notions used to state the properties\<close>

text \<open>The signed turn angles at the interior waypoints of a backbone, in order.\<close>

fun turn_angles :: "float_ops \<Rightarrow> DPoint \<Rightarrow> DPoint \<Rightarrow> DPoint list \<Rightarrow> real list" where
  "turn_angles fo p0 p1 [] = []"
| "turn_angles fo p0 p1 (q # qs) = turn_angle fo p0 p1 q # turn_angles fo p1 q qs"

text \<open>
  The bend cache and the log agree: the keys are distinct and not zero, every entry was
  made by one call of the factory with the absolute value of its key.
\<close>

definition cache_inv :: "route_args \<Rightarrow> route_state \<Rightarrow> bool" where
  "cache_inv ra st =
     (distinct (map fst (rs_bends st))
      \<and> filter is_bend_call (rs_calls st)
          = map (\<lambda>kv. BendCall (ra_width ra) \<bar>fst kv\<bar>) (rs_bends st)
      \<and> list_all (\<lambda>kv. fst kv \<noteq> 0 \<and> snd kv = ra_bend_factory ra (ra_width ra) \<bar>fst kv\<bar>)
           (rs_bends st))"

text \<open>
  Two ports are compatible for a connection when their transformations are opposite
  (rotated by 180 degrees, or mirrored at the axis of 90 degrees) and width, layer and
  type agree: the assertions of \<^verbatim>\<open>port_check\<close> with \<^verbatim>\<open>PortCheck.all_opposite\<close>.
\<close>

definition opposite_compatible :: "PortView \<Rightarrow> PortView \<Rightarrow> bool" where
  "opposite_compatible p1 p2 =
     ((pv_trans p1 = trans_mult (pv_trans p2) R180 \<or> pv_trans p1 = trans_mult (pv_trans p2) M90)
      \<and> pv_width p1 = pv_width p2 \<and> pv_layer p1 = pv_layer p2
      \<and> pv_port_type p1 = pv_port_type p2)"

definition entry_port :: "inst_entry \<Rightarrow> PortView" where
  "entry_port e = snd (snd (snd e))"

text \<open>Every list of a two-level dictionary built by appending has an element.\<close>

definition filled :: "('a \<times> ('b \<times> 'c list) list) list \<Rightarrow> bool" where
  "filled d = list_all (\<lambda>am. list_all (\<lambda>bc. snd bc \<noteq> []) (snd am)) d"

section \<open>Properties of the port model\<close>

lemma base_append_old: "base_addr p < length h \<Longrightarrow> base (h @ [b]) p = base h p"
  by (simp add: base_def nth_append)

lemma base_append_new: "base (h @ [b]) (Port (length h)) = Some b"
  by (simp add: base_def)

lemma is_complex_rot45: "is_complex rot45"
  by (simp add: is_complex_def rot45_def py_mod_def)

lemma not_complex_rot90: "\<not> is_complex rot90_at_1"
  by (simp add: is_complex_def rot90_at_1_def py_mod_def)

lemma kround_of_int: "kround (of_int n) = n"
proof -
  have "\<lfloor>of_int n + (1::real) / 2\<rfloor> = n" by linarith
  moreover have "\<lceil>of_int n - (1::real) / 2\<rceil> = n" by linarith
  ultimately show ?thesis by (simp add: kround_def)
qed

lemma kround_numeral [simp]: "kround (numeral k) = numeral k" "kround 0 = 0" "kround 1 = 1"
  using kround_of_int [of "numeral k"] kround_of_int [of 0] kround_of_int [of 1] by simp_all

lemma narrowing_cond:
  "(is_complex rot90_at_1 \<or> c_disp rot90_at_1 \<noteq> to_um kcl0 (to_dbu kcl0 (c_disp rot90_at_1))) = False"
  by (simp add: is_complex_def py_mod_def to_um_def to_dbu_def kcl0_def rot90_at_1_def)

lemma s_trans_rot90: "s_trans kcl0 rot90_at_1 = \<lparr> t_rot = 1, t_mirror = False, t_disp = (1000, 0) \<rparr>"
  by (simp add: s_trans_def to_dbu_def kcl0_def rot90_at_1_def py_mod_def)

lemma set_complex_on_simple:
  "set_dcplx_trans [simple_base] (Port 0) rot45 = [simple_base\<lparr>bp_dcplx_trans := Some rot45\<rparr>]"
  by (simp add: set_dcplx_trans_def upd_base_def is_complex_rot45)

lemma set_simple_on_complex:
  "set_trans [complex_base] (Port 0) R0 = [complex_base\<lparr>bp_trans := Some R0\<rparr>]"
  by (simp add: set_trans_def upd_base_def)

lemma bp_kcl_complex_base: "bp_kcl complex_base = kcl0"
  by (simp add: complex_base_def simple_base_def)

lemma set_aligned_on_complex:
  "set_dcplx_trans [complex_base] (Port 0) rot90_at_1
     = [complex_base\<lparr>bp_trans := Some \<lparr> t_rot = 1, t_mirror = False, t_disp = (1000, 0) \<rparr>\<rparr>]"
  by (simp add: set_dcplx_trans_def upd_base_def bp_kcl_complex_base narrowing_cond s_trans_rot90
           del: One_nat_def)

text \<open>
  C1 (code defect). The claim: at most one of the stored \<^verbatim>\<open>trans\<close> and \<^verbatim>\<open>dcplx_trans\<close> is
  set at any time, and assigning either property clears the other. The setters of lines
  302-304 and 319-326 write one field and never reset the other one, although the
  docstrings of lines 292-296 and 308-314 say they overwrite it. Evaluated: assigning a
  complex \<^verbatim>\<open>dcplx_trans\<close> to a port that stores a simple transformation leaves both set;
  assigning \<^verbatim>\<open>trans\<close> to a port that stores a complex one leaves both set; assigning a
  grid-aligned, non-complex \<^verbatim>\<open>dcplx_trans\<close> to a port that stores a complex one stores the
  narrowed simple transformation and keeps the old complex one, which the
  \<^verbatim>\<open>dcplx_trans\<close> getter goes on returning.
\<close>

theorem setters_keep_other_representation:
  "map (\<lambda>b. (bp_trans b, bp_dcplx_trans b)) (set_dcplx_trans [simple_base] (Port 0) rot45)
     = [(Some R0, Some rot45)]
   \<and> map (\<lambda>b. (bp_trans b, bp_dcplx_trans b)) (set_trans [complex_base] (Port 0) R0)
     = [(Some R0, Some rot45)]
   \<and> map (\<lambda>b. (bp_trans b, bp_dcplx_trans b)) (set_dcplx_trans [complex_base] (Port 0) rot90_at_1)
     = [(Some \<lparr> t_rot = 1, t_mirror = False, t_disp = (1000, 0) \<rparr>, Some rot45)]
   \<and> map get_dcplx_trans (set_dcplx_trans [complex_base] (Port 0) rot90_at_1) = [Inr rot45]"
  unfolding set_complex_on_simple set_simple_on_complex set_aligned_on_complex
  by (simp add: complex_base_def simple_base_def get_dcplx_trans_def)

text \<open>
  C10. Port equality across the two views is not symmetric: for a \<^verbatim>\<open>DPort\<close> and a
  \<^verbatim>\<open>Port\<close> whose bases are structurally equal, \<^verbatim>\<open>d == p\<close> compares the bases and is
  true, while \<^verbatim>\<open>p == d\<close> is false, since \<^verbatim>\<open>__eq__\<close> answers false whenever its right
  operand is no \<^verbatim>\<open>Port\<close>.
\<close>

theorem port_eq_not_symmetric:
  assumes "a < length h" and "b < length h" and "h ! a = h ! b"
  shows "port_eq h (DPort a) (Port b) \<and> \<not> port_eq h (Port b) (DPort a)"
  using assms by (simp add: port_eq_def base_def)

theorem port_eq_not_symmetric_witness:
  "0 < length [simple_base, simple_base] \<and> 1 < length [simple_base, simple_base]
   \<and> [simple_base, simple_base] ! 0 = [simple_base, simple_base] ! 1
   \<and> port_eq [simple_base, simple_base] (DPort 0) (Port 1)
   \<and> \<not> port_eq [simple_base, simple_base] (Port 1) (DPort 0)"
  using port_eq_not_symmetric [of 0 "[simple_base, simple_base]" 1] by simp

text \<open>
  C7. For a port that stores a simple transformation and simple \<^verbatim>\<open>T1\<close>, \<^verbatim>\<open>T2\<close>, the
  \<^verbatim>\<open>trans\<close> of \<^verbatim>\<open>port.copy(T1, T2)\<close> is \<^verbatim>\<open>T1 * port.trans * T2\<close>; the call allocates a
  new base and leaves the source port, and every other object of the store, unchanged.
\<close>

theorem port_copy_law:
  assumes "base h (Port a) = Some b" and "bp_trans b = Some T"
  shows "\<exists>h' q. Port_copy h (Port a) (STrans T1) (STrans T2) = Inr (h', q)
           \<and> port_trans h' q = Inr (trans_mult (trans_mult T1 T) T2)
           \<and> port_trans h (Port a) = Inr T
           \<and> base h' (Port a) = Some b
           \<and> take (length h) h' = h"
proof -
  from assms(1) have len: "a < length h"
    by (simp add: base_def split: if_splits)
  have tr: "transformed b (STrans T1) (STrans T2)
              = Inr (b\<lparr>bp_trans := Some (trans_mult (trans_mult T1 T) T2)\<rparr>)"
    using assms(2) by (simp add: transformed_def)
  let ?b' = "b\<lparr>bp_trans := Some (trans_mult (trans_mult T1 T) T2)\<rparr>"
  have c: "Port_copy h (Port a) (STrans T1) (STrans T2) = Inr (h @ [?b'], Port (length h))"
    using assms(1) tr by (simp add: Port_copy_def)
  have g: "port_trans (h @ [?b']) (Port (length h)) = Inr (trans_mult (trans_mult T1 T) T2)"
    by (simp add: port_trans_def base_append_new get_trans_def)
  have o: "port_trans h (Port a) = Inr T"
    using assms by (simp add: port_trans_def get_trans_def)
  have u: "base (h @ [?b']) (Port a) = Some b"
    using assms(1) len by (simp add: base_append_old)
  show ?thesis using c g o u by simp
qed

theorem port_copy_law_witness:
  "base [simple_base] (Port 0) = Some simple_base \<and> bp_trans simple_base = Some R0
   \<and> (\<exists>h' q. Port_copy [simple_base] (Port 0)
          (STrans \<lparr> t_rot = 1, t_mirror = False, t_disp = (5, 0) \<rparr>)
          (STrans \<lparr> t_rot = 2, t_mirror = True, t_disp = (0, 7) \<rparr>) = Inr (h', q)
        \<and> port_trans h' q = Inr \<lparr> t_rot = 3, t_mirror = True, t_disp = (-2, 0) \<rparr>
        \<and> base h' (Port 0) = Some simple_base)"
proof -
  have 1: "base [simple_base] (Port 0) = Some simple_base" by (simp add: base_def)
  have 2: "bp_trans simple_base = Some R0" by (simp add: simple_base_def)
  have 3: "trans_mult (trans_mult \<lparr> t_rot = 1, t_mirror = False, t_disp = (5, 0) \<rparr> R0)
             \<lparr> t_rot = 2, t_mirror = True, t_disp = (0, 7) \<rparr>
           = \<lparr> t_rot = 3, t_mirror = True, t_disp = (-2, 0) \<rparr>"
    by (simp add: trans_mult_def R0_def fix_apply_def)
  show ?thesis
    using port_copy_law [OF 1 2, of "\<lparr> t_rot = 1, t_mirror = False, t_disp = (5, 0) \<rparr>"
        "\<lparr> t_rot = 2, t_mirror = True, t_disp = (0, 7) \<rparr>"] 1 2 3
    by auto
qed


section \<open>Properties of the route synthesis\<close>

subsection \<open>Geometry of the examples\<close>

lemma exact_ops_simps [simp]:
  "fo_add exact_ops = (\<lambda>a b. a + b)"
  "fo_sub exact_ops = (\<lambda>a b. a - b)"
  "fo_mod exact_ops = py_mod"
  "fo_angle exact_ops = angle_deg"
  "fo_length exact_ops = vlength"
  "fo_vsub exact_ops = vsub"
  "fo_vadd exact_ops = vadd"
  "fo_trans_vec exact_ops = ctrans_vec"
  "fo_cut_point exact_ops = cut_point"
  by (simp_all add: exact_ops_def)

lemma vlength_x [simp]: "vlength (x, 0) = \<bar>x\<bar>"
  by (simp add: vlength_def)

lemma vlength_y [simp]: "vlength (0, y) = \<bar>y\<bar>"
  by (simp add: vlength_def)

lemma angle_deg_east: "0 < x \<Longrightarrow> angle_deg (x, 0) = 0"
  by (simp add: angle_deg_def arctan2_def rad2deg_def)

lemma angle_deg_north: "0 < y \<Longrightarrow> angle_deg (0, y) = 90"
  by (simp add: angle_deg_def arctan2_def rad2deg_def)

lemma py_mod_small: "0 \<le> a \<Longrightarrow> a < m \<Longrightarrow> py_mod a m = a"
proof -
  assume a: "0 \<le> a" "a < m"
  then have "\<lfloor>a / m\<rfloor> = 0" by (simp add: floor_eq_iff)
  then show ?thesis by (simp add: py_mod_def)
qed

lemma effective_radius_bend_cell: "effective_radius exact_ops (''o1'', ''o2'') bend_cell = Inr 5"
  by (simp add: effective_radius_def port_of_def bend_cell_def ctrans_vec_def deg2rad_def
      cut_point_def vsub_def vadd_def Let_def)

lemma turn_east_north:
  "y1 = y0 \<Longrightarrow> x0 < x1 \<Longrightarrow> x2 = x1 \<Longrightarrow> y1 < y2
   \<Longrightarrow> turn_angle exact_ops (x0, y0) (x1, y1) (x2, y2) = 90"
  by (simp add: turn_angle_def vsub_def angle_deg_east angle_deg_north py_mod_small)

lemma turn_north_east:
  "x1 = x0 \<Longrightarrow> y0 < y1 \<Longrightarrow> y2 = y1 \<Longrightarrow> x1 < x2
   \<Longrightarrow> turn_angle exact_ops (x0, y0) (x1, y1) (x2, y2) = - 90"
  by (simp add: turn_angle_def vsub_def angle_deg_east angle_deg_north py_mod_small)

lemma turn_east_east:
  "y1 = y0 \<Longrightarrow> x0 < x1 \<Longrightarrow> y2 = y1 \<Longrightarrow> x1 < x2
   \<Longrightarrow> turn_angle exact_ops (x0, y0) (x1, y1) (x2, y2) = 0"
  by (simp add: turn_angle_def vsub_def angle_deg_east py_mod_small)

lemma turn_north_north:
  "x1 = x0 \<Longrightarrow> y0 < y1 \<Longrightarrow> x2 = x1 \<Longrightarrow> y1 < y2
   \<Longrightarrow> turn_angle exact_ops (x0, y0) (x1, y1) (x2, y2) = 0"
  by (simp add: turn_angle_def vsub_def angle_deg_north py_mod_small)

lemmas turn_simps = turn_east_north turn_north_east turn_east_east turn_north_north

subsection \<open>Placement\<close>

lemma place_ok:
  assumes "\<not> vc_locked c" and "port_of cell entry = Inr t1" and "port_of cell exit = Inr t2"
  shows "place c cell entry exit cur =
           Inr (c\<lparr>vc_insts := vc_insts c @ [\<lparr> vi_cell = cell, vi_connect = Some (entry, cur) \<rparr>]\<rparr>,
                \<lparr> vi_cell = cell, vi_connect = Some (entry, cur) \<rparr>,
                InstPort (length (vc_insts c)) exit)"
  using assms by (simp add: place_def create_inst_def connect_def inst_port_def Let_def)

lemma place_locked: "vc_locked c \<Longrightarrow> place c cell entry exit cur = Inl (LockedError, c)"
  by (simp add: place_def create_inst_def)

lemma port_of_straight_ex [simp]:
  "port_of (straight_ex w l) ''o1'' = Inr \<lparr> c_mag = 1, c_angle = 180, c_mirror = False, c_disp = (0, 0) \<rparr>"
  "port_of (straight_ex w l) ''o2'' = Inr \<lparr> c_mag = 1, c_angle = 0, c_mirror = False, c_disp = (l, 0) \<rparr>"
  by (simp_all add: port_of_def straight_ex_def)

lemma port_of_bend_cell [simp]:
  "port_of bend_cell ''o1'' = Inr \<lparr> c_mag = 1, c_angle = 180, c_mirror = False, c_disp = (0, 0) \<rparr>"
  "port_of bend_cell ''o2'' = Inr \<lparr> c_mag = 1, c_angle = 90, c_mirror = False, c_disp = (5, 5) \<rparr>"
  by (simp_all add: port_of_def bend_cell_def)

lemma place_result:
  assumes "place c cell en ex cur = Inr (c', inst, p)"
  shows "inst = \<lparr> vi_cell = cell, vi_connect = Some (en, cur) \<rparr>
         \<and> p = InstPort (length (vc_insts c)) ex
         \<and> c' = c\<lparr>vc_insts := vc_insts c @ [inst]\<rparr>"
  using assms
  by (auto simp: place_def create_inst_def connect_def inst_port_def Let_def
           split: if_splits sum.splits)

lemma place_straight_result:
  assumes "place_straight ra st l = Inr st'"
  shows "st' = st\<lparr>rs_calls := rs_calls st @ [StraightCall (ra_width ra) l],
                  rs_cell := (rs_cell st)\<lparr>vc_insts := vc_insts (rs_cell st) @
                     [\<lparr> vi_cell = ra_straight_factory ra (ra_width ra) l,
                        vi_connect = Some (fst (ra_straight_ports ra), rs_port st) \<rparr>]\<rparr>,
                  rs_port := InstPort (length (vc_insts (rs_cell st))) (snd (ra_straight_ports ra)),
                  rs_insts := rs_insts st @
                     [\<lparr> vi_cell = ra_straight_factory ra (ra_width ra) l,
                        vi_connect = Some (fst (ra_straight_ports ra), rs_port st) \<rparr>]\<rparr>"
  using assms
  by (auto simp: place_straight_def Let_def split: sum.splits dest!: place_result)

lemma place_bend_result:
  assumes "place_bend ra st b a = Inr st'"
  shows "st' = st\<lparr>rs_cell := (rs_cell st)\<lparr>vc_insts := vc_insts (rs_cell st) @
                     [\<lparr> vi_cell = b,
                        vi_connect = Some (if a < 0 then snd (ra_bend_ports ra)
                                           else fst (ra_bend_ports ra), rs_port st) \<rparr>]\<rparr>,
                  rs_port := InstPort (length (vc_insts (rs_cell st)))
                               (if a < 0 then fst (ra_bend_ports ra) else snd (ra_bend_ports ra)),
                  rs_insts := rs_insts st @
                     [\<lparr> vi_cell = b,
                        vi_connect = Some (if a < 0 then snd (ra_bend_ports ra)
                                           else fst (ra_bend_ports ra), rs_port st) \<rparr>]\<rparr>"
  using assms
  by (auto simp: place_bend_def Let_def split: sum.splits dest!: place_result)

lemma get_bend_cached:
  "map_of (rs_bends st) a = Some b \<Longrightarrow> get_bend ra st a = (st, b)"
  by (simp add: get_bend_def)

lemma get_bend_new:
  "map_of (rs_bends st) a = None \<Longrightarrow>
   get_bend ra st a =
     (st\<lparr>rs_bends := rs_bends st @ [(a, ra_bend_factory ra (ra_width ra) \<bar>a\<bar>)],
         rs_calls := rs_calls st @ [BendCall (ra_width ra) \<bar>a\<bar>]\<rparr>,
      ra_bend_factory ra (ra_width ra) \<bar>a\<bar>)"
  by (simp add: get_bend_def Let_def)

lemma get_bend_inv:
  assumes "cache_inv ra st" and "a \<noteq> 0" and "get_bend ra st a = (st1, b)"
  shows "cache_inv ra st1 \<and> set (map fst (rs_bends st1)) = insert a (set (map fst (rs_bends st)))
         \<and> rs_old_pt st1 = rs_old_pt st \<and> rs_pt st1 = rs_pt st"
proof (cases "map_of (rs_bends st) a")
  case None
  then have notin: "a \<notin> set (map fst (rs_bends st))"
    by (simp add: map_of_eq_None_iff)
  from None assms(3) have st1: "st1 = st\<lparr>rs_bends := rs_bends st @ [(a, ra_bend_factory ra (ra_width ra) \<bar>a\<bar>)],
         rs_calls := rs_calls st @ [BendCall (ra_width ra) \<bar>a\<bar>]\<rparr>"
    by (auto simp: get_bend_new)
  show ?thesis using assms(1,2) notin unfolding st1 cache_inv_def by simp
next
  case (Some b')
  then have "a \<in> set (map fst (rs_bends st))"
    by (metis map_of_eq_None_iff option.distinct(1) set_map)
  moreover from Some assms(3) have "st1 = st" by (simp add: get_bend_cached)
  ultimately show ?thesis using assms(1) by auto
qed

lemma route_step_inv:
  assumes "cache_inv ra st" and "route_step ra st q = Inr st'"
  shows "cache_inv ra st'
         \<and> set (map fst (rs_bends st'))
             = set (map fst (rs_bends st))
               \<union> {a. a = turn_angle (ra_ops ra) (rs_old_pt st) (rs_pt st) q \<and> a \<noteq> 0}
         \<and> rs_old_pt st' = rs_pt st \<and> rs_pt st' = q"
proof (cases "turn_angle (ra_ops ra) (rs_old_pt st) (rs_pt st) q = 0")
  case True
  with assms show ?thesis
    by (auto simp: route_step_def bend_for_turn_def Let_def cache_inv_def
             split: sum.splits if_splits dest!: place_straight_result)
next
  case False
  obtain st1 b where gb: "get_bend ra st (turn_angle (ra_ops ra) (rs_old_pt st) (rs_pt st) q) = (st1, b)"
    by (cases "get_bend ra st (turn_angle (ra_ops ra) (rs_old_pt st) (rs_pt st) q)")
  from get_bend_inv [OF assms(1) False gb]
  have inv1: "cache_inv ra st1"
    and keys: "set (map fst (rs_bends st1))
                 = insert (turn_angle (ra_ops ra) (rs_old_pt st) (rs_pt st) q) (set (map fst (rs_bends st)))"
    and pts: "rs_old_pt st1 = rs_old_pt st" "rs_pt st1 = rs_pt st"
    by simp_all
  from assms(2) False gb have "cache_inv ra st' \<and> rs_bends st' = rs_bends st1
      \<and> rs_old_pt st' = rs_pt st1 \<and> rs_pt st' = q"
    using inv1
    by (auto simp: route_step_def bend_for_turn_def Let_def cache_inv_def
             split: sum.splits if_splits dest!: place_straight_result place_bend_result)
  with keys pts False show ?thesis by auto
qed

lemma route_loop_inv:
  assumes "cache_inv ra st" and "route_loop ra st qs = Inr st'"
  shows "cache_inv ra st'
         \<and> set (map fst (rs_bends st'))
             = set (map fst (rs_bends st))
               \<union> {a \<in> set (turn_angles (ra_ops ra) (rs_old_pt st) (rs_pt st) qs). a \<noteq> 0}"
  using assms
proof (induction qs arbitrary: st)
  case Nil
  then show ?case by simp
next
  case (Cons q qs)
  from Cons.prems(2) obtain st1 where s1: "route_step ra st q = Inr st1"
    and l1: "route_loop ra st1 qs = Inr st'"
    by (auto split: sum.splits)
  from route_step_inv [OF Cons.prems(1) s1]
  have i1: "cache_inv ra st1"
    and k1: "set (map fst (rs_bends st1)) = set (map fst (rs_bends st))
               \<union> {a. a = turn_angle (ra_ops ra) (rs_old_pt st) (rs_pt st) q \<and> a \<noteq> 0}"
    and p1: "rs_old_pt st1 = rs_pt st" "rs_pt st1 = q"
    by simp_all
  from Cons.IH [OF i1 l1] k1 p1 show ?case by auto
qed

lemma route_close_inv:
  assumes "cache_inv ra st" and "route_close ra st = Inr st'"
  shows "cache_inv ra st' \<and> rs_bends st' = rs_bends st"
  using assms
  by (auto simp: route_close_def Let_def cache_inv_def split: if_splits
           dest!: place_straight_result)


subsection \<open>Evaluation of the examples\<close>

lemmas route_simps = route_placement_def route_step_def bend_for_turn_def get_bend_def
  place_straight_def place_bend_def route_close_def args_ex_def cell0_def bend_ex_def
  effective_radius_bend_cell place_ok Let_def

subsection \<open>The ports built by \<^verbatim>\<open>route\<close>\<close>

text \<open>
  Lines 53-66 pass the keyword \<^verbatim>\<open>dwidth\<close>, which \<^verbatim>\<open>Port.__init__\<close> (port.py lines 630-648)
  does not have; \<^verbatim>\<open>dwidth\<close> is a read-only property of a port (port.py line 459), and
  kcell.py line 2417 creates a port with \<^verbatim>\<open>width=kcl.to_dbu(dwidth)\<close>. So every call of
  \<^verbatim>\<open>route\<close> with three or more waypoints raises before the loop, whatever the operations
  on doubles give.
\<close>

lemma Port_init_dwidth:
  "Port_init k (route_port_kwargs c w l ang p)
     = Inl (TypeError ''Port.__init__() got an unexpected keyword argument dwidth'')"
  by (simp add: Port_init_def route_port_kwargs_def Port_params_def)

lemma route_long_backbone:
  "3 \<le> length backbone \<Longrightarrow>
   route k fo c w l backbone sf bf bp sp
     = (Inl (TypeError ''Port.__init__() got an unexpected keyword argument dwidth''), c, [])"
  by (simp add: route_def Port_init_dwidth Let_def)

text \<open>
  C8. A backbone with fewer than three waypoints is rejected with the \<^verbatim>\<open>ValueError\<close> of
  line 44 before anything is placed: the cell is returned as it was and no factory has
  been called.
\<close>

theorem route_rejects_short_backbone:
  assumes "length backbone < 3"
  shows "route k fo c w l backbone sf bf bp sp
           = (Inl (ValueError ''All angle routes with less than 3 points are not supported.''),
              c, [])"
  using assms by (simp add: route_def)

theorem route_rejects_short_backbone_witness:
  "length [(0, 0), (10, 0) :: DPoint] < 3
   \<and> route kcl0 exact_ops cell0 1 0 [(0, 0), (10, 0)] straight_ex bend_ex
         (''o1'', ''o2'') (''o1'', ''o2'')
       = (Inl (ValueError ''All angle routes with less than 3 points are not supported.''),
          cell0, [])"
  using route_rejects_short_backbone [of "[(0, 0), (10, 0)]" kcl0 exact_ops cell0 1 0
      straight_ex bend_ex "(''o1'', ''o2'')" "(''o1'', ''o2'')"]
  by simp

text \<open>
  C2 (code defect). The claim: for the backbone (0,0), (10,0), (10,10), a 90 degree bend
  of effective radius 5 and exact-length straights, \<^verbatim>\<open>route\<close> succeeds and places a
  straight of length 5, the bend and a straight of length 5. The call raises the
  \<^verbatim>\<open>TypeError\<close> of the unknown keyword \<^verbatim>\<open>dwidth\<close> and places nothing, for every
  choice of the operations on doubles.
\<close>

theorem route_scenario_raises:
  "route kcl0 fo cell0 1 0 [(0, 0), (10, 0), (10, 10)] straight_ex bend_ex
      (''o1'', ''o2'') (''o1'', ''o2'')
     = (Inl (TypeError ''Port.__init__() got an unexpected keyword argument dwidth''), cell0, [])"
  by (simp add: route_long_backbone)

text \<open>
  The loop and the closing straight (lines 68-153) on their own do what the claim says,
  for every unlocked cell, every bend factory whose 90 degree bend has effective radius 5
  and every straight factory whose element has the two ports.
\<close>

lemma effective_radius_ports:
  assumes "effective_radius fo bp b = Inr r"
  shows "\<exists>t1 t2. port_of b (fst bp) = Inr t1 \<and> port_of b (snd bp) = Inr t2"
  using assms by (auto simp: effective_radius_def split: sum.splits)

lemma placement_scenario:
  assumes "\<not> vc_locked c"
    and "ra_ops ra = exact_ops"
    and "effective_radius exact_ops (ra_bend_ports ra) (ra_bend_factory ra (ra_width ra) 90) = Inr 5"
    and "port_of (ra_straight_factory ra (ra_width ra) 5) (fst (ra_straight_ports ra)) = Inr t1"
    and "port_of (ra_straight_factory ra (ra_width ra) 5) (snd (ra_straight_ports ra)) = Inr t2"
  shows "\<exists>st. route_placement ra c (0, 0) (10, 0) [(10, 10)] = Inr st
           \<and> rs_insts st =
               [\<lparr> vi_cell = ra_straight_factory ra (ra_width ra) 5,
                   vi_connect = Some (fst (ra_straight_ports ra), StartPort) \<rparr>,
                \<lparr> vi_cell = ra_bend_factory ra (ra_width ra) 90,
                   vi_connect = Some (fst (ra_bend_ports ra),
                                      InstPort (length (vc_insts c)) (snd (ra_straight_ports ra))) \<rparr>,
                \<lparr> vi_cell = ra_straight_factory ra (ra_width ra) 5,
                   vi_connect = Some (fst (ra_straight_ports ra),
                                      InstPort (Suc (length (vc_insts c))) (snd (ra_bend_ports ra))) \<rparr>]
           \<and> vc_insts (rs_cell st) = vc_insts c @ rs_insts st"
proof -
  from effective_radius_ports [OF assms(3)] obtain b1 b2
    where b: "port_of (ra_bend_factory ra (ra_width ra) 90) (fst (ra_bend_ports ra)) = Inr b1"
      "port_of (ra_bend_factory ra (ra_width ra) 90) (snd (ra_bend_ports ra)) = Inr b2"
    by blast
  show ?thesis
    using assms b
    by (simp add: route_placement_def route_step_def bend_for_turn_def get_bend_def
        place_straight_def place_bend_def route_close_def Let_def turn_simps vsub_def
        place_ok [where ?t1.0 = t1 and ?t2.0 = t2] place_ok [where ?t1.0 = b1 and ?t2.0 = b2])
qed

text \<open>
  C3 (code defect). The claim: whenever the straight length, distance minus running
  offset minus effective radius, is negative at an interior waypoint or at the closing
  straight, the call fails with the insufficient-space error naming the two waypoints.
  The check of lines 110-115 stands inside the branch \<^verbatim>\<open>if _a != 0\<close>. At a waypoint with
  turn angle 0 that follows a bend nearer than the radius of the bend, the length is
  negative, nothing is raised and the route goes on: for the backbone (0,0), (10,0),
  (10,3), (10,10) the length at (10,3) is 3 - 0 - 5 and the loop places a straight of
  length 5, the bend and a straight of length 7.
\<close>

theorem collinear_waypoint_skips_space_check:
  "turn_angle exact_ops (10, 0) (10, 3) (10, 10) = 0
   \<and> vlength (vsub (10, 3) (10, 0)) - 0 - 5 < 0
   \<and> (case route_placement args_ex cell0 (0, 0) (10, 0) [(10, 3), (10, 10)] of
        Inl e \<Rightarrow> False
      | Inr st \<Rightarrow>
          map vi_cell (rs_insts st) = [straight_ex 1 5, bend_cell, straight_ex 1 7]
          \<and> vc_insts (rs_cell st) = rs_insts st)"
  by (simp add: route_simps turn_simps vsub_def)

text \<open>
  Where the turn is not zero, and at the closing straight, the loop does raise the error
  with the two waypoints; so does the scenario (0,0), (3,0), (3,10) with the bend of
  radius 5, once the loop is reached.
\<close>

lemma insufficient_space_scenario:
  "case route_placement args_ex cell0 (0, 0) (3, 0) [(3, 10)] of
     Inl (e, st) \<Rightarrow> e = NotEnoughSpace (0, 0) (3, 0) 5 3 \<and> vc_insts (rs_cell st) = []
   | Inr st \<Rightarrow> False"
  by (simp add: route_simps turn_simps vsub_def)

lemma step_insufficient_space:
  assumes "turn_angle (ra_ops ra) (rs_old_pt st) (rs_pt st) q \<noteq> 0"
    and "get_bend ra st (turn_angle (ra_ops ra) (rs_old_pt st) (rs_pt st) q) = (st1, b)"
    and "effective_radius (ra_ops ra) (ra_bend_ports ra) b = Inr r"
    and "fo_sub (ra_ops ra)
           (fo_sub (ra_ops ra)
              (fo_length (ra_ops ra) (fo_vsub (ra_ops ra) (rs_pt st) (rs_old_pt st))) r)
           (rs_start_offset st) < 0"
  shows "route_step ra st q
           = Inl (NotEnoughSpace (rs_old_pt st) (rs_pt st)
                    (fo_add (ra_ops ra) (rs_start_offset st) r)
                    (fo_length (ra_ops ra) (fo_vsub (ra_ops ra) (rs_pt st) (rs_old_pt st))), st1)"
proof -
  from assms(2) have "rs_old_pt st1 = rs_old_pt st" "rs_pt st1 = rs_pt st"
    "rs_start_offset st1 = rs_start_offset st"
    by (auto simp: get_bend_def Let_def split: option.splits)
  with assms show ?thesis
    by (simp add: route_step_def bend_for_turn_def Let_def)
qed

lemma close_insufficient_space:
  assumes "fo_sub (ra_ops ra)
             (fo_length (ra_ops ra) (fo_vsub (ra_ops ra) (rs_pt st) (rs_old_pt st)))
             (rs_effective_radius st) < 0"
  shows "route_close ra st
           = Inl (NotEnoughSpace (rs_old_pt st) (rs_pt st) (rs_effective_radius st)
                    (fo_length (ra_ops ra) (fo_vsub (ra_ops ra) (rs_pt st) (rs_old_pt st))), st)"
  using assms by (simp add: route_close_def Let_def)


subsection \<open>The bend cache\<close>

text \<open>
  C4 (code defect). The claim: the bend cache is keyed by the absolute value of the turn
  angle, so that the turns a and -a share one cached bend, the factory is called exactly
  once, and a bend placed for a negative turn is connected with entry and exit swapped.
  On the backbone (0,0), (10,0), (10,20), (20,20), whose turns are 90 and -90 degrees,
  \<^verbatim>\<open>route\<close> raises the \<^verbatim>\<open>TypeError\<close> of the unknown keyword \<^verbatim>\<open>dwidth\<close> at line 53, before
  the cache exists: the bend factory is not called at all, no bend is cached or placed
  and the cell is left as it was, for every choice of the operations on doubles. It is
  the defect of lines 53-66 that C2 meets.
\<close>

theorem route_zigzag_raises:
  "route kcl0 fo cell0 1 0 [(0, 0), (10, 0), (10, 20), (20, 20)] straight_ex bend_ex
       (''o1'', ''o2'') (''o1'', ''o2'')
     = (Inl (TypeError ''Port.__init__() got an unexpected keyword argument dwidth''), cell0, [])
   \<and> filter is_bend_call
       (snd (snd (route kcl0 fo cell0 1 0 [(0, 0), (10, 0), (10, 20), (20, 20)] straight_ex
                    bend_ex (''o1'', ''o2'') (''o1'', ''o2'')))) = []"
  by (simp add: route_long_backbone)

text \<open>
  The loop that the call does not reach. For every choice of the operations on doubles
  and every run of the loop that returns, the keys of the bend cache are the signed turn
  angles \<^verbatim>\<open>_a\<close> of the interior waypoints that are not zero, each key once (lines 84-86);
  the bend factory has been called once for each key, with the absolute value of the key,
  and the cached element is the result of that call.
\<close>

lemma loop_cache_signed_key:
  assumes "route_placement ra c p0 p1 rest = Inr st"
  shows "set (map fst (rs_bends st)) = {a \<in> set (turn_angles (ra_ops ra) p0 p1 rest). a \<noteq> 0}
         \<and> distinct (map fst (rs_bends st))
         \<and> filter is_bend_call (rs_calls st)
             = map (\<lambda>kv. BendCall (ra_width ra) \<bar>fst kv\<bar>) (rs_bends st)
         \<and> map snd (rs_bends st)
             = map (\<lambda>kv. ra_bend_factory ra (ra_width ra) \<bar>fst kv\<bar>) (rs_bends st)"
proof -
  let ?st0 = "\<lparr> rs_cell = c, rs_bends = [], rs_old_pt = p0, rs_pt = p1, rs_start_offset = 0,
               rs_effective_radius = 0, rs_port = StartPort, rs_insts = [], rs_calls = [] \<rparr>"
  have i0: "cache_inv ra ?st0" by (simp add: cache_inv_def)
  from assms obtain st1 where l: "route_loop ra ?st0 rest = Inr st1"
    and cl: "route_close ra st1 = Inr st"
    by (auto simp: route_placement_def split: sum.splits)
  from route_loop_inv [OF i0 l] have i1: "cache_inv ra st1"
    and k1: "set (map fst (rs_bends st1))
               = {a \<in> set (turn_angles (ra_ops ra) p0 p1 rest). a \<noteq> 0}"
    by simp_all
  from route_close_inv [OF i1 cl] have i2: "cache_inv ra st" and b: "rs_bends st = rs_bends st1"
    by simp_all
  have "map snd (rs_bends st)
          = map (\<lambda>kv. ra_bend_factory ra (ra_width ra) \<bar>fst kv\<bar>) (rs_bends st)"
    using i2 by (auto simp: cache_inv_def list_all_iff)
  then show ?thesis using i2 k1 b by (simp add: cache_inv_def)
qed

text \<open>
  On the backbone above the loop, run from its start, ends with the two keys 90 and -90
  and two calls of the bend factory, both with 90. The bend of the positive turn is
  connected at its first port and left at its second; the bend of the negative turn is
  connected at its second port and left at its first.
\<close>

lemma loop_zigzag:
  "turn_angles exact_ops (0, 0) (10, 0) [(10, 20), (20, 20)] = [90, - 90]
   \<and> (case route_placement args_ex cell0 (0, 0) (10, 0) [(10, 20), (20, 20)] of
        Inl e \<Rightarrow> False
      | Inr st \<Rightarrow>
          map fst (rs_bends st) = [90, - 90]
          \<and> filter is_bend_call (rs_calls st) = [BendCall 1 90, BendCall 1 90]
          \<and> map vi_cell (rs_insts st)
              = [straight_ex 1 5, bend_cell, straight_ex 1 10, bend_cell, straight_ex 1 5]
          \<and> map vi_connect (rs_insts st)
              = [Some (''o1'', StartPort), Some (''o1'', InstPort 0 ''o2''),
                 Some (''o1'', InstPort 1 ''o2''), Some (''o2'', InstPort 2 ''o2''),
                 Some (''o1'', InstPort 3 ''o1'')])"
  by (simp add: route_simps turn_simps vsub_def)


subsection \<open>A waypoint without a turn\<close>

text \<open>
  C9 (code defect). The claim: at a turn angle of 0 no bend is placed and the two
  straight runs flanking the waypoint merge into one placed straight. On the backbone
  (0,0), (10,0), (20,0), whose only interior waypoint has no turn, \<^verbatim>\<open>route\<close> raises the
  \<^verbatim>\<open>TypeError\<close> of the unknown keyword \<^verbatim>\<open>dwidth\<close> at line 53: no straight is placed, the
  cell is left as it was and no factory is called, for every choice of the operations on
  doubles. It is the defect of lines 53-66 that C2 meets.
\<close>

theorem route_collinear_raises:
  "route kcl0 fo cell0 1 0 [(0, 0), (10, 0), (20, 0)] straight_ex bend_ex
       (''o1'', ''o2'') (''o1'', ''o2'')
     = (Inl (TypeError ''Port.__init__() got an unexpected keyword argument dwidth''), cell0, [])
   \<and> vc_insts (fst (snd (route kcl0 fo cell0 1 0 [(0, 0), (10, 0), (20, 0)] straight_ex
                            bend_ex (''o1'', ''o2'') (''o1'', ''o2'')))) = []"
  by (simp add: route_long_backbone cell0_def)

text \<open>
  The loop that the call does not reach. An iteration whose turn angle \<^verbatim>\<open>_a\<close> is 0, as
  the operations on doubles give it, fetches, creates and places no bend and sets the
  effective radius and the running offset to 0. It places the run before the waypoint as
  a straight of its own when the length of that run, less the running offset, is
  positive, and nothing otherwise; it places nothing for the run after the waypoint.
\<close>

lemma zero_turn_iteration:
  assumes "turn_angle (ra_ops ra) (rs_old_pt st) (rs_pt st) q = 0"
    and "route_step ra st q = Inr st'"
  shows "rs_bends st' = rs_bends st
         \<and> filter is_bend_call (rs_calls st') = filter is_bend_call (rs_calls st)
         \<and> rs_effective_radius st' = 0 \<and> rs_start_offset st' = 0
         \<and> rs_old_pt st' = rs_pt st \<and> rs_pt st' = q
         \<and> map vi_cell (rs_insts st')
             = map vi_cell (rs_insts st)
               @ (if 0 < fo_sub (ra_ops ra)
                           (fo_sub (ra_ops ra)
                              (fo_length (ra_ops ra)
                                 (fo_vsub (ra_ops ra) (rs_pt st) (rs_old_pt st))) 0)
                           (rs_start_offset st)
                  then [ra_straight_factory ra (ra_width ra)
                          (fo_sub (ra_ops ra)
                             (fo_sub (ra_ops ra)
                                (fo_length (ra_ops ra)
                                   (fo_vsub (ra_ops ra) (rs_pt st) (rs_old_pt st))) 0)
                             (rs_start_offset st))]
                  else [])"
  using assms
  by (auto simp: route_step_def bend_for_turn_def Let_def
           split: sum.splits if_splits dest!: place_straight_result)

text \<open>
  On the backbone above the loop, run from its start, places a straight of length 10 for
  the first run and the closing code places another straight of length 10 for the second:
  two instances, no bend.
\<close>

lemma loop_collinear:
  "turn_angle exact_ops (0, 0) (10, 0) (20, 0) = 0
   \<and> (case route_placement args_ex cell0 (0, 0) (10, 0) [(20, 0)] of
        Inl e \<Rightarrow> False
      | Inr st \<Rightarrow>
          map vi_cell (rs_insts st) = [straight_ex 1 10, straight_ex 1 10]
          \<and> rs_bends st = [] \<and> filter is_bend_call (rs_calls st) = []
          \<and> vc_insts (rs_cell st) = rs_insts st)"
  by (simp add: route_simps turn_simps vsub_def)


section \<open>Properties of the netlist extraction\<close>

lemma port_check_ok:
  "opposite_compatible p1 p2 \<Longrightarrow> port_check p1 p2 all_opposite = Inr ()"
  by (simp add: port_check_def all_opposite_def opposite_compatible_def)

lemma port_check_bad:
  "\<not> opposite_compatible p1 p2 \<Longrightarrow> \<exists>m. port_check p1 p2 all_opposite = Inl (AssertionError m)"
  by (auto simp: port_check_def all_opposite_def opposite_compatible_def)

lemma port_check_error: "port_check p1 p2 c = Inl e \<Longrightarrow> \<exists>m. e = AssertionError m"
  by (auto simp: port_check_def split: if_splits)

lemma connect_bucket_error:
  "connect_bucket cp h l es = Inl e \<Longrightarrow> \<exists>m. e = AssertionError m"
  by (auto simp: connect_bucket_def split: option.splits if_splits list.splits sum.splits
           dest: port_check_error)

lemma connect_buckets_error:
  "connect_buckets cp bs = Inl e \<Longrightarrow> \<exists>m. e = AssertionError m"
proof (induction bs)
  case Nil
  then show ?case by simp
next
  case (Cons b bs)
  obtain h l es where b: "b = (h, l, es)" by (cases b)
  from Cons show ?case unfolding b
    by (auto split: sum.splits dest: connect_bucket_error)
qed

lemma connect_buckets_fail:
  "(h, l, es) \<in> set bs \<Longrightarrow> connect_bucket cp h l es = Inl e
     \<Longrightarrow> \<exists>e'. connect_buckets cp bs = Inl e'"
proof (induction bs)
  case Nil
  then show ?case by simp
next
  case (Cons b bs)
  obtain h' l' es' where b: "b = (h', l', es')" by (cases b)
  from Cons show ?case unfolding b
    by (auto split: sum.splits)
qed

lemma connect_buckets_block:
  "connect_buckets cp bs = Inr ops \<Longrightarrow> (h, l, es) \<in> set bs
     \<Longrightarrow> \<exists>ops' pre post. connect_bucket cp h l es = Inr ops' \<and> ops = pre @ ops' @ post"
proof (induction bs arbitrary: ops)
  case Nil
  then show ?case by simp
next
  case (Cons b bs)
  obtain h' l' es' where b: "b = (h', l', es')" by (cases b)
  from Cons.prems(1) obtain o1 o2 where o1: "connect_bucket cp h' l' es' = Inr o1"
    and o2: "connect_buckets cp bs = Inr o2" and ops: "ops = o1 @ o2"
    unfolding b by (auto split: sum.splits)
  show ?case
  proof (cases "(h, l, es) = (h', l', es')")
    case True
    with o1 ops have "connect_bucket cp h l es = Inr o1 \<and> ops = [] @ o1 @ o2" by simp
    then show ?thesis by blast
  next
    case False
    with Cons.prems(2) b have "(h, l, es) \<in> set bs" by auto
    from Cons.IH [OF o2 this] obtain ops' pre post
      where "connect_bucket cp h l es = Inr ops'" "o2 = pre @ ops' @ post" by blast
    with ops have "connect_bucket cp h l es = Inr ops' \<and> ops = (o1 @ pre) @ ops' @ post" by simp
    then show ?thesis by blast
  qed
qed

lemma enumerate_from0_simps [simp]:
  "enumerate_from0 [] = []"
  "enumerate_from0 [a] = [(0, a)]"
  "enumerate_from0 [a, b] = [(0, a), (1, b)]"
  by (simp_all add: enumerate_from0_def)

lemma example_compatible: "opposite_compatible port_east port_west"
  by (simp add: opposite_compatible_def port_east_def port_west_def trans_mult_def R180_def
      fix_apply_def)

lemma connect_buckets_all_ok:
  "\<forall>b \<in> set bs. \<exists>ops. connect_bucket cp (fst b) (fst (snd b)) (snd (snd b)) = Inr ops
     \<Longrightarrow> \<exists>ops. connect_buckets cp bs = Inr ops"
proof (induction bs)
  case Nil
  then show ?case by simp
next
  case (Cons b bs)
  obtain h l es where b: "b = (h, l, es)" by (cases b)
  from Cons show ?case unfolding b by auto
qed

lemma connect_buckets_first_failure:
  "(h, l, es) \<in> set bs \<Longrightarrow> connect_bucket cp h l es = Inl e
     \<Longrightarrow> \<forall>b \<in> set bs. b \<noteq> (h, l, es)
           \<longrightarrow> (\<exists>ops. connect_bucket cp (fst b) (fst (snd b)) (snd (snd b)) = Inr ops)
     \<Longrightarrow> connect_buckets cp bs = Inl e"
proof (induction bs)
  case Nil
  then show ?case by simp
next
  case (Cons b bs)
  obtain h' l' es' where b: "b = (h', l', es')" by (cases b)
  show ?case
  proof (cases "b = (h, l, es)")
    case True
    with Cons.prems(2) show ?thesis by simp
  next
    case False
    with Cons.prems(3) obtain ops where o: "connect_bucket cp h' l' es' = Inr ops"
      unfolding b by auto
    from False Cons.prems(1) have "(h, l, es) \<in> set bs" by simp
    from Cons.IH [OF this Cons.prems(2)] Cons.prems(3)
    have "connect_buckets cp bs = Inl e" by simp
    with o show ?thesis unfolding b by simp
  qed
qed

lemma connect_buckets_others_ok:
  assumes "(h, l, es) \<in> set bs"
    and "connect_bucket cp h l es = Inr ops'"
    and "\<forall>b \<in> set bs. b \<noteq> (h, l, es)
           \<longrightarrow> (\<exists>ops. connect_bucket cp (fst b) (fst (snd b)) (snd (snd b)) = Inr ops)"
  shows "\<exists>pre post. connect_buckets cp bs = Inr (pre @ ops' @ post)"
proof -
  have "\<forall>b \<in> set bs. \<exists>ops. connect_bucket cp (fst b) (fst (snd b)) (snd (snd b)) = Inr ops"
    using assms(2,3) by auto
  from connect_buckets_all_ok [OF this] obtain ops where o: "connect_buckets cp bs = Inr ops"
    by blast
  from connect_buckets_block [OF o assms(1)] assms(2) obtain pre post
    where "ops = pre @ ops' @ post" by auto
  with o show ?thesis by blast
qed

lemma three_insts_buckets:
  "buckets (inst_port_buckets kcl0 (inst_entries [''optical''] three_insts))
   = [((10, 0), (0, 0), [(0, 0, Some ''a'', port_east), (1, 0, Some ''b'', port_west)]),
      ((50, 0), (0, 0), [(2, 0, Some ''d'', port_far)])]"
  by (simp add: buckets_def inst_port_buckets_def inst_entries_def inst_with_def dict_append2_def
      port_east_def port_west_def port_far_def kcl0_def three_insts_def enumerate_from0_def)

lemma subcircuit_ops_three_insts:
  "subcircuit_ops three_insts
   = [CreateSubcircuit 0 (Named ''a''), CreateSubcircuit 1 (Named ''b''),
      CreateSubcircuit 2 (Named ''d'')]"
  by (simp add: subcircuit_ops_def three_insts_def inst_with_def enumerate_from0_def)

lemma no_cell_port_buckets: "buckets ([] :: ((int \<times> int) \<times> ((nat \<times> nat) \<times> cell_entry list) list) list) = []"
  by (simp add: buckets_def)

lemma connect_three_insts:
  "connect_buckets []
     [((10, 0), (0, 0), [(0, 0, Some ''a'', port_east), (1, 0, Some ''b'', port_west)]),
      ((50, 0), (0, 0), [(2, 0, Some ''d'', port_far)])]
   = Inr [CreateNet (InstNet [(Named ''a'', Named ''o1''), (Named ''b'', Named ''o2'')]),
          SubcConnectPin 0 (Named ''o1'')
            (InstNet [(Named ''a'', Named ''o1''), (Named ''b'', Named ''o2'')]),
          SubcConnectPin 1 (Named ''o2'')
            (InstNet [(Named ''a'', Named ''o1''), (Named ''b'', Named ''o2'')]),
          CreateNet (InstNet [(Named ''d'', Named ''o1'')])]"
proof -
  have c: "opposite_compatible port_east port_west" by (rule example_compatible)
  have pins: "pv_name port_east = Some ''o1''" "pv_name port_west = Some ''o2''"
    "pv_name port_far = Some ''o1''"
    by (simp_all add: port_east_def port_west_def port_far_def)
  show ?thesis
    by (simp add: connect_bucket_def lookup2_def port_check_ok [OF c] inst_net_def
        inst_pin_op_def name_or_def pins)
qed

lemma circuit_three_insts:
  "circuit kcl0 [] three_insts [''optical'']
   = Inr [CreateSubcircuit 0 (Named ''a''), CreateSubcircuit 1 (Named ''b''),
          CreateSubcircuit 2 (Named ''d''),
          CreateNet (InstNet [(Named ''a'', Named ''o1''), (Named ''b'', Named ''o2'')]),
          SubcConnectPin 0 (Named ''o1'')
            (InstNet [(Named ''a'', Named ''o1''), (Named ''b'', Named ''o2'')]),
          SubcConnectPin 1 (Named ''o2'')
            (InstNet [(Named ''a'', Named ''o1''), (Named ''b'', Named ''o2'')]),
          CreateNet (InstNet [(Named ''d'', Named ''o1'')])]"
proof -
  have c: "cell_port_buckets kcl0
      (filter (\<lambda>ip. pv_port_type (snd ip) \<in> set [''optical'']) (enumerate_from0 [])) [] [] = Inr []"
    by simp
  show ?thesis
    unfolding circuit_def c sum.case three_insts_buckets connect_three_insts
      subcircuit_ops_three_insts no_cell_port_buckets
    by simp
qed

text \<open>
  C5. In \<^verbatim>\<open>circuit\<close>, for every bucket of instance ports at a position and layer where
  the cell has no port: with more than two ports the bucket fails with the assertion of
  line 1674 and \<^verbatim>\<open>circuit\<close> raises; with two ports they are checked with \<^verbatim>\<open>port_check\<close>
  for opposite orientation, width, layer and type, and when compatible the bucket
  creates one net and connects the pins of both to it, else \<^verbatim>\<open>circuit\<close> raises; with one
  port nothing is raised, the net is created and no pin is connected to it. When
  \<^verbatim>\<open>circuit\<close> returns, the calls of the bucket are a block of its calls. When no other
  bucket of instance ports fails, \<^verbatim>\<open>circuit\<close> raises exactly the assertion of the bucket
  with more than two or with two incompatible ports, and for a bucket with one port or
  with two compatible ports it returns, its calls holding the block of the bucket: the
  net alone for one port, the net and the two pins for two.
\<close>

theorem circuit_unmatched_bucket:
  assumes cell: "cell_port_buckets k
                   (filter (\<lambda>ip. pv_port_type (snd ip) \<in> set port_types) (enumerate_from0 ports))
                   [] [] = Inr cell_ports"
    and bucket: "(h, layer, es) \<in> set (buckets (inst_port_buckets k (inst_entries port_types insts)))"
    and unmatched: "lookup2 cell_ports h layer = None"
  shows "(if 2 < length es then
            connect_bucket cell_ports h layer es
              = Inl (AssertionError ''Optical connection with more than two ports are not supported'')
            \<and> (\<exists>m. circuit k ports insts port_types = Inl (AssertionError m))
          else True)
       \<and> (case es of
            [e1, e2] \<Rightarrow>
              if opposite_compatible (entry_port e1) (entry_port e2)
              then connect_bucket cell_ports h layer es
                     = Inr [CreateNet (inst_net es), inst_pin_op (inst_net es) e1,
                            inst_pin_op (inst_net es) e2]
              else (\<exists>m. connect_bucket cell_ports h layer es = Inl (AssertionError m))
                   \<and> (\<exists>m. circuit k ports insts port_types = Inl (AssertionError m))
          | [e] \<Rightarrow> connect_bucket cell_ports h layer es = Inr [CreateNet (inst_net es)]
          | _ \<Rightarrow> True)
       \<and> (case circuit k ports insts port_types of
            Inl e \<Rightarrow> True
          | Inr ops \<Rightarrow>
              \<exists>ops' pre post. connect_bucket cell_ports h layer es = Inr ops'
                 \<and> ops = pre @ ops' @ post)
       \<and> ((\<forall>b \<in> set (buckets (inst_port_buckets k (inst_entries port_types insts))).
              b \<noteq> (h, layer, es)
              \<longrightarrow> (\<exists>ops. connect_bucket cell_ports (fst b) (fst (snd b)) (snd (snd b)) = Inr ops))
           \<longrightarrow> (if 2 < length es then
                  circuit k ports insts port_types
                    = Inl (AssertionError
                             ''Optical connection with more than two ports are not supported'')
                else
                  (case es of
                     [e1, e2] \<Rightarrow>
                       if opposite_compatible (entry_port e1) (entry_port e2)
                       then \<exists>pre post. circuit k ports insts port_types
                              = Inr (pre @ [CreateNet (inst_net es), inst_pin_op (inst_net es) e1,
                                            inst_pin_op (inst_net es) e2] @ post)
                       else \<exists>m. port_check (entry_port e1) (entry_port e2) all_opposite
                                  = Inl (AssertionError m)
                                \<and> circuit k ports insts port_types = Inl (AssertionError m)
                   | [e] \<Rightarrow> \<exists>pre post. circuit k ports insts port_types
                              = Inr (pre @ [CreateNet (inst_net es)] @ post)
                   | _ \<Rightarrow> True)))"
proof -
  let ?bs = "buckets (inst_port_buckets k (inst_entries port_types insts))"
  let ?others = "\<forall>b \<in> set ?bs. b \<noteq> (h, layer, es)
              \<longrightarrow> (\<exists>ops. connect_bucket cell_ports (fst b) (fst (snd b)) (snd (snd b)) = Inr ops)"
  have fail: "\<exists>m. circuit k ports insts port_types = Inl (AssertionError m)"
    if "connect_bucket cell_ports h layer es = Inl e" for e
  proof -
    from connect_buckets_fail [OF bucket that] obtain e'
      where e': "connect_buckets cell_ports ?bs = Inl e'" by blast
    from connect_buckets_error [OF e'] obtain m where "e' = AssertionError m" by blast
    with e' cell show ?thesis by (simp add: circuit_def)
  qed
  have raises: "circuit k ports insts port_types = Inl e"
    if "connect_bucket cell_ports h layer es = Inl e" and ?others for e
    using connect_buckets_first_failure [OF bucket that] cell by (simp add: circuit_def)
  have returns: "\<exists>pre post. circuit k ports insts port_types = Inr (pre @ ops' @ post)"
    if "connect_bucket cell_ports h layer es = Inr ops'" and ?others for ops'
  proof -
    from connect_buckets_others_ok [OF bucket that] obtain pre post
      where "connect_buckets cell_ports ?bs = Inr (pre @ ops' @ post)" by blast
    with cell have "circuit k ports insts port_types
       = Inr ((concat (map (\<lambda>b. cell_bucket_ops (snd (snd b))) (buckets cell_ports))
                 @ subcircuit_ops insts @ pre) @ ops' @ post)"
      by (simp add: circuit_def)
    then show ?thesis by blast
  qed
  have many: "connect_bucket cell_ports h layer es
                = Inl (AssertionError ''Optical connection with more than two ports are not supported'')"
    if "2 < length es"
    using that unmatched by (simp add: connect_bucket_def)
  have two_ok: "connect_bucket cell_ports h layer [e1, e2]
               = Inr [CreateNet (inst_net [e1, e2]), inst_pin_op (inst_net [e1, e2]) e1,
                      inst_pin_op (inst_net [e1, e2]) e2]"
    if "opposite_compatible (entry_port e1) (entry_port e2)" for e1 e2
    using unmatched port_check_ok [OF that]
    by (simp add: connect_bucket_def entry_port_def)
  have two_bad: "\<exists>m. port_check (entry_port e1) (entry_port e2) all_opposite = Inl (AssertionError m)
                   \<and> connect_bucket cell_ports h layer [e1, e2] = Inl (AssertionError m)"
    if "\<not> opposite_compatible (entry_port e1) (entry_port e2)" for e1 e2
    using unmatched port_check_bad [OF that]
    by (auto simp: connect_bucket_def entry_port_def)
  have one: "connect_bucket cell_ports h layer [e] = Inr [CreateNet (inst_net [e])]" for e
    using unmatched by (simp add: connect_bucket_def)
  have c1: "if 2 < length es then
            connect_bucket cell_ports h layer es
              = Inl (AssertionError ''Optical connection with more than two ports are not supported'')
            \<and> (\<exists>m. circuit k ports insts port_types = Inl (AssertionError m))
          else True"
    using many fail by auto
  have c2: "case es of
            [e1, e2] \<Rightarrow>
              if opposite_compatible (entry_port e1) (entry_port e2)
              then connect_bucket cell_ports h layer es
                     = Inr [CreateNet (inst_net es), inst_pin_op (inst_net es) e1,
                            inst_pin_op (inst_net es) e2]
              else (\<exists>m. connect_bucket cell_ports h layer es = Inl (AssertionError m))
                   \<and> (\<exists>m. circuit k ports insts port_types = Inl (AssertionError m))
          | [e] \<Rightarrow> connect_bucket cell_ports h layer es = Inr [CreateNet (inst_net es)]
          | _ \<Rightarrow> True"
  proof (cases es)
    case Nil
    then show ?thesis by simp
  next
    case (Cons e1 es1)
    note es = this
    show ?thesis
    proof (cases es1)
      case Nil
      with es one show ?thesis by simp
    next
      case (Cons e2 es2)
      note es1 = this
      show ?thesis
      proof (cases es2)
        case Nil
        show ?thesis
        proof (cases "opposite_compatible (entry_port e1) (entry_port e2)")
          case True
          with es es1 Nil two_ok [of e1 e2] show ?thesis by simp
        next
          case False
          from two_bad [OF False] obtain m where
            e: "connect_bucket cell_ports h layer [e1, e2] = Inl (AssertionError m)" by blast
          with fail [of "AssertionError m"] es es1 Nil False show ?thesis by auto
        qed
      next
        case (Cons e3 es3)
        with es es1 show ?thesis by simp
      qed
    qed
  qed
  have c3: "case circuit k ports insts port_types of
            Inl e \<Rightarrow> True
          | Inr ops \<Rightarrow>
              \<exists>ops' pre post. connect_bucket cell_ports h layer es = Inr ops'
                 \<and> ops = pre @ ops' @ post"
  proof (cases "circuit k ports insts port_types")
    case (Inl e)
    then show ?thesis by simp
  next
    case (Inr ops)
    with cell obtain o3 where o3: "connect_buckets cell_ports ?bs = Inr o3"
      and ops: "ops = concat (map (\<lambda>b. cell_bucket_ops (snd (snd b))) (buckets cell_ports))
                      @ subcircuit_ops insts @ o3"
      by (auto simp: circuit_def split: sum.splits)
    from connect_buckets_block [OF o3 bucket] obtain ops' pre post
      where "connect_bucket cell_ports h layer es = Inr ops'" "o3 = pre @ ops' @ post" by blast
    with ops have "connect_bucket cell_ports h layer es = Inr ops'
       \<and> ops = (concat (map (\<lambda>b. cell_bucket_ops (snd (snd b))) (buckets cell_ports))
                 @ subcircuit_ops insts @ pre) @ ops' @ post"
      by simp
    then have "\<exists>ops' pre post. connect_bucket cell_ports h layer es = Inr ops'
                 \<and> ops = pre @ ops' @ post" by blast
    with Inr show ?thesis by simp
  qed
  have c4: "if 2 < length es then
              circuit k ports insts port_types
                = Inl (AssertionError
                         ''Optical connection with more than two ports are not supported'')
            else
              (case es of
                 [e1, e2] \<Rightarrow>
                   if opposite_compatible (entry_port e1) (entry_port e2)
                   then \<exists>pre post. circuit k ports insts port_types
                          = Inr (pre @ [CreateNet (inst_net es), inst_pin_op (inst_net es) e1,
                                        inst_pin_op (inst_net es) e2] @ post)
                   else \<exists>m. port_check (entry_port e1) (entry_port e2) all_opposite
                              = Inl (AssertionError m)
                            \<and> circuit k ports insts port_types = Inl (AssertionError m)
               | [e] \<Rightarrow> \<exists>pre post. circuit k ports insts port_types
                          = Inr (pre @ [CreateNet (inst_net es)] @ post)
               | _ \<Rightarrow> True)"
    if others: ?others
  proof (cases "2 < length es")
    case True
    with raises [OF many [OF True] others] show ?thesis by simp
  next
    case long: False
    show ?thesis
    proof (cases es)
      case Nil
      then show ?thesis by simp
    next
      case (Cons e1 es1)
      note es = this
      show ?thesis
      proof (cases es1)
        case Nil
        from returns [OF _ others, of "[CreateNet (inst_net es)]"] one [of e1] es Nil
        show ?thesis by simp
      next
        case (Cons e2 es2)
        with es long have es2: "es = [e1, e2]" by (cases es2) simp_all
        show ?thesis
        proof (cases "opposite_compatible (entry_port e1) (entry_port e2)")
          case True
          from returns [OF _ others, of "[CreateNet (inst_net es), inst_pin_op (inst_net es) e1,
                      inst_pin_op (inst_net es) e2]"] two_ok [OF True] es2 True
          show ?thesis by simp
        next
          case False
          from two_bad [OF False] obtain m
            where m: "port_check (entry_port e1) (entry_port e2) all_opposite = Inl (AssertionError m)"
              "connect_bucket cell_ports h layer [e1, e2] = Inl (AssertionError m)" by blast
          from raises [OF _ others, of "AssertionError m"] m es2
          have "circuit k ports insts port_types = Inl (AssertionError m)" by simp
          with m(1) es2 False show ?thesis by simp
        qed
      qed
    qed
  qed
  from c1 c2 c3 c4 show ?thesis by blast
qed

theorem circuit_unmatched_bucket_witness:
  "cell_port_buckets kcl0
      (filter (\<lambda>ip. pv_port_type (snd ip) \<in> set [''optical'']) (enumerate_from0 [])) [] [] = Inr []
   \<and> ((10, 0), (0, 0), [(0, 0, Some ''a'', port_east), (1, 0, Some ''b'', port_west)])
       \<in> set (buckets (inst_port_buckets kcl0 (inst_entries [''optical''] three_insts)))
   \<and> ((50, 0), (0, 0), [(2, 0, Some ''d'', port_far)])
       \<in> set (buckets (inst_port_buckets kcl0 (inst_entries [''optical''] three_insts)))
   \<and> lookup2 ([] :: ((int \<times> int) \<times> ((nat \<times> nat) \<times> cell_entry list) list) list) (10, 0) (0, 0) = None
   \<and> lookup2 ([] :: ((int \<times> int) \<times> ((nat \<times> nat) \<times> cell_entry list) list) list) (50, 0) (0, 0) = None
   \<and> (\<exists>pre post. circuit kcl0 [] three_insts [''optical'']
          = Inr (pre @ [CreateNet (InstNet [(Named ''a'', Named ''o1''), (Named ''b'', Named ''o2'')]),
                        SubcConnectPin 0 (Named ''o1'')
                          (InstNet [(Named ''a'', Named ''o1''), (Named ''b'', Named ''o2'')]),
                        SubcConnectPin 1 (Named ''o2'')
                          (InstNet [(Named ''a'', Named ''o1''), (Named ''b'', Named ''o2'')])]
                     @ post))
   \<and> (\<exists>pre post. circuit kcl0 [] three_insts [''optical'']
          = Inr (pre @ [CreateNet (InstNet [(Named ''d'', Named ''o1'')])] @ post))"
proof -
  let ?ab = "[(0, 0, Some ''a'', port_east), (1, 0, Some ''b'', port_west)] :: inst_entry list"
  let ?d = "[(2, 0, Some ''d'', port_far)] :: inst_entry list"
  have c0: "cell_port_buckets kcl0
      (filter (\<lambda>ip. pv_port_type (snd ip) \<in> set [''optical'']) (enumerate_from0 [])) [] [] = Inr []"
    by simp
  have b1: "((10, 0), (0, 0), ?ab)
       \<in> set (buckets (inst_port_buckets kcl0 (inst_entries [''optical''] three_insts)))"
    by (simp add: three_insts_buckets)
  have b2: "((50, 0), (0, 0), ?d)
       \<in> set (buckets (inst_port_buckets kcl0 (inst_entries [''optical''] three_insts)))"
    by (simp add: three_insts_buckets)
  have u1: "lookup2 ([] :: ((int \<times> int) \<times> ((nat \<times> nat) \<times> cell_entry list) list) list)
             (10, 0) (0, 0) = None"
    by (simp add: lookup2_def)
  have u2: "lookup2 ([] :: ((int \<times> int) \<times> ((nat \<times> nat) \<times> cell_entry list) list) list)
             (50, 0) (0, 0) = None"
    by (simp add: lookup2_def)
  have pins: "pv_name port_east = Some ''o1''" "pv_name port_west = Some ''o2''"
    "pv_name port_far = Some ''o1''"
    by (simp_all add: port_east_def port_west_def port_far_def)
  have d_ok: "\<exists>ops. connect_bucket [] (50, 0) (0, 0) ?d = Inr ops"
    by (simp add: connect_bucket_def lookup2_def)
  have ab_ok: "\<exists>ops. connect_bucket [] (10, 0) (0, 0) ?ab = Inr ops"
    using port_check_ok [OF example_compatible] by (simp add: connect_bucket_def lookup2_def)
  from circuit_unmatched_bucket [OF c0 b1 u1] d_ok example_compatible
  have a: "\<exists>pre post. circuit kcl0 [] three_insts [''optical'']
          = Inr (pre @ [CreateNet (InstNet [(Named ''a'', Named ''o1''), (Named ''b'', Named ''o2'')]),
                        SubcConnectPin 0 (Named ''o1'')
                          (InstNet [(Named ''a'', Named ''o1''), (Named ''b'', Named ''o2'')]),
                        SubcConnectPin 1 (Named ''o2'')
                          (InstNet [(Named ''a'', Named ''o1''), (Named ''b'', Named ''o2'')])]
                     @ post)"
    by (simp add: three_insts_buckets entry_port_def inst_net_def inst_pin_op_def name_or_def pins)
  from circuit_unmatched_bucket [OF c0 b2 u2] ab_ok
  have b: "\<exists>pre post. circuit kcl0 [] three_insts [''optical'']
          = Inr (pre @ [CreateNet (InstNet [(Named ''d'', Named ''o1'')])] @ post)"
    by (simp add: three_insts_buckets inst_net_def name_or_def pins)
  from c0 b1 b2 u1 u2 a b show ?thesis by (intro conjI)
qed


section \<open>Properties of the connectivity check\<close>

lemma dict_upd_all:
  assumes "list_all (\<lambda>kv. P (snd kv)) d" and "\<And>v. P v \<Longrightarrow> P (f (Some v))" and "P (f None)"
  shows "list_all (\<lambda>kv. P (snd kv)) (dict_upd k f d)"
  using assms by (induction d) auto

lemma filled_append2: "filled d \<Longrightarrow> filled (dict_append2 a b x d)"
  unfolding filled_def dict_append2_def
  by (rule dict_upd_all) (auto intro!: dict_upd_all [where P = "\<lambda>l. l \<noteq> []"])

lemma filled_foldl:
  "filled d \<Longrightarrow> filled (foldl (\<lambda>d x. dict_append2 (f x) (g x) (h x) d) d xs)"
  by (induction xs arbitrary: d) (simp_all add: filled_append2)

lemma filled_cell_buckets: "filled (check_cell_buckets pt ls ports)"
  unfolding check_cell_buckets_def
  using filled_foldl [of "[]" pv_layer "\<lambda>p. t_disp (pv_trans p)" "\<lambda>p. p"]
  by (simp add: filled_def)

lemma filled_inst_buckets: "filled (check_inst_buckets pt ls insts)"
  unfolding check_inst_buckets_def
  using filled_foldl [of "[]" "\<lambda>pc. pv_layer (fst pc)" "\<lambda>pc. t_disp (pv_trans (fst pc))" "\<lambda>pc. pc"]
  by (simp add: filled_def)

lemma filled_bucket: "filled d \<Longrightarrow> (a, b, xs) \<in> set (buckets d) \<Longrightarrow> xs \<noteq> []"
  by (fastforce simp: filled_def buckets_def list_all_iff)

lemma lookup2_bucket: "lookup2 d a b = Some xs \<Longrightarrow> (a, b, xs) \<in> set (buckets d)"
  by (force simp: lookup2_def buckets_def split: option.splits dest!: map_of_SomeD)

lemma check_bucket_returns:
  assumes "filled cells" and "pcs \<noteq> []"
  shows "\<exists>ds. check_bucket env cells layer coord pcs = Inr ds"
proof -
  have "lookup2 cells layer coord \<noteq> Some []"
    using filled_bucket [OF assms(1) lookup2_bucket] by blast
  with assms(2) show ?thesis
    by (auto simp: check_bucket_def split: list.splits option.splits)
qed

lemma check_buckets_returns:
  assumes "filled cells" and "list_all (\<lambda>b. snd (snd b) \<noteq> []) bs"
  shows "\<exists>ds. check_buckets env cells bs = Inr ds"
  using assms(2)
proof (induction bs)
  case Nil
  then show ?case by simp
next
  case (Cons b bs)
  obtain l c pcs where b: "b = (l, c, pcs)" by (cases b)
  from Cons.prems b have "pcs \<noteq> []" by simp
  from check_bucket_returns [OF assms(1) this] obtain ds
    where "check_bucket env cells l c pcs = Inr ds" by blast
  moreover from Cons obtain ds' where "check_buckets env cells bs = Inr ds'" by auto
  ultimately show ?case unfolding b by simp
qed

lemma check_buckets_block:
  "check_buckets env cells bs = Inr ds \<Longrightarrow> (l, c, pcs) \<in> set bs
     \<Longrightarrow> \<exists>ds' pre post. check_bucket env cells l c pcs = Inr ds' \<and> ds = pre @ ds' @ post"
proof (induction bs arbitrary: ds)
  case Nil
  then show ?case by simp
next
  case (Cons b bs)
  obtain l' c' pcs' where b: "b = (l', c', pcs')" by (cases b)
  from Cons.prems(1) obtain d1 d2 where d1: "check_bucket env cells l' c' pcs' = Inr d1"
    and d2: "check_buckets env cells bs = Inr d2" and ds: "ds = d1 @ d2"
    unfolding b by (auto split: sum.splits)
  show ?case
  proof (cases "(l, c, pcs) = (l', c', pcs')")
    case True
    with d1 ds have "check_bucket env cells l c pcs = Inr d1 \<and> ds = [] @ d1 @ d2" by simp
    then show ?thesis by blast
  next
    case False
    with Cons.prems(2) b have "(l, c, pcs) \<in> set bs" by auto
    from Cons.IH [OF d2 this] obtain ds' pre post
      where "check_bucket env cells l c pcs = Inr ds'" "d2 = pre @ ds' @ post" by blast
    with ds have "check_bucket env cells l c pcs = Inr ds' \<and> ds = (d1 @ pre) @ ds' @ post" by simp
    then show ?thesis by blast
  qed
qed

lemma no_ports_no_buckets:
  assumes "concat (map iv_ports insts) = []"
  shows "check_inst_buckets pt ls insts = []"
proof -
  from assms have "\<forall>i \<in> set insts. iv_ports i = []" by simp
  then have c: "concat (map (\<lambda>i. map (\<lambda>p. (p, iv_cell_name i))
                                (filter (selected pt ls) (iv_ports i))) insts) = []"
    by simp
  show ?thesis by (simp only: check_inst_buckets_def c foldl_Nil)
qed

text \<open>
  C6. \<^verbatim>\<open>connectivity_check\<close> returns, and for every bucket of instance ports the items of
  the bucket are a block of the items it creates. A bucket with exactly one instance
  port, at a layer and position where the cell has no port, gives exactly one item, in
  the category OrphanPort, naming that port. A bucket with three or more instance ports
  gives exactly one item, in the category portoverlap, whose text and polygons list
  every port of the bucket; no mismatch item is created for any pair of them.
\<close>

theorem connectivity_check_orphan_and_overlap:
  assumes "(layer, coord, pcs) \<in> set (buckets (check_inst_buckets port_types layers insts))"
  shows "\<exists>ds pre post.
           connectivity_check name ccp cip ports insts port_types layers = Inr (pre @ ds @ post)
           \<and> check_bucket
                \<lparr> ce_cell_name = name, ce_check_cell_ports = ccp, ce_check_inst_ports = cip,
                  ce_loop_port = last (concat (map iv_ports insts)) \<rparr>
                (check_cell_buckets port_types layers ports) layer coord pcs = Inr ds
           \<and> (case pcs of
                [] \<Rightarrow> False
              | [pc] \<Rightarrow>
                  (case lookup2 (check_cell_buckets port_types layers ports) layer coord of
                     None \<Rightarrow>
                       ds = [\<lparr> dg_layer = layer, dg_category = ''OrphanPort'',
                                dg_names = [(snd pc, fst pc)],
                                dg_polygons = [if pv_stored_simple (fst pc) then fst pc
                                               else last (concat (map iv_ports insts))] \<rparr>]
                   | Some cps \<Rightarrow> True)
              | [pc1, pc2] \<Rightarrow> True
              | _ \<Rightarrow>
                  ds = [\<lparr> dg_layer = layer, dg_category = ''portoverlap'',
                           dg_names = map (\<lambda>pc. (snd pc, fst pc)) pcs,
                           dg_polygons = map fst pcs \<rparr>])"
proof -
  let ?env = "\<lparr> ce_cell_name = name, ce_check_cell_ports = ccp, ce_check_inst_ports = cip,
                  ce_loop_port = last (concat (map iv_ports insts)) \<rparr>"
  let ?cells = "check_cell_buckets port_types layers ports"
  let ?bs = "buckets (check_inst_buckets port_types layers insts)"
  have ne: "concat (map iv_ports insts) \<noteq> []"
  proof
    assume "concat (map iv_ports insts) = []"
    from no_ports_no_buckets [OF this] have "check_inst_buckets port_types layers insts = []" .
    with assms show False by (simp add: buckets_def)
  qed
  then have cc: "connectivity_check name ccp cip ports insts port_types layers
                   = check_buckets ?env ?cells ?bs"
    by (cases "concat (map iv_ports insts)") (simp_all add: connectivity_check_def)
  have "list_all (\<lambda>b. snd (snd b) \<noteq> []) ?bs"
    using filled_bucket [OF filled_inst_buckets] by (auto simp: list_all_iff)
  from check_buckets_returns [OF filled_cell_buckets this] obtain all_ds
    where all: "check_buckets ?env ?cells ?bs = Inr all_ds" by blast
  from check_buckets_block [OF all assms] obtain ds pre post
    where ds: "check_bucket ?env ?cells layer coord pcs = Inr ds" and split: "all_ds = pre @ ds @ post"
    by blast
  have pcs: "pcs \<noteq> []" using filled_bucket [OF filled_inst_buckets assms] .
  have shape: "case pcs of
                [] \<Rightarrow> False
              | [pc] \<Rightarrow>
                  (case lookup2 ?cells layer coord of
                     None \<Rightarrow>
                       ds = [\<lparr> dg_layer = layer, dg_category = ''OrphanPort'',
                                dg_names = [(snd pc, fst pc)],
                                dg_polygons = [if pv_stored_simple (fst pc) then fst pc
                                               else last (concat (map iv_ports insts))] \<rparr>]
                   | Some cps \<Rightarrow> True)
              | [pc1, pc2] \<Rightarrow> True
              | _ \<Rightarrow>
                  ds = [\<lparr> dg_layer = layer, dg_category = ''portoverlap'',
                           dg_names = map (\<lambda>pc. (snd pc, fst pc)) pcs,
                           dg_polygons = map fst pcs \<rparr>]"
    using ds pcs by (auto simp: check_bucket_def split: list.splits option.splits)
  have r: "connectivity_check name ccp cip ports insts port_types layers = Inr (pre @ ds @ post)"
    using cc all split by simp
  from r ds shape show ?thesis
    by (intro exI [of _ ds] exI [of _ pre] exI [of _ post] conjI) assumption+
qed

lemma four_insts_buckets:
  "buckets (check_inst_buckets [] [] four_insts)
     = [(0, (10, 0), [(port_east, ''wg''), (port_west, ''wg''), (port_east, ''wg'')]),
        (0, (50, 0), [(port_far, ''wg'')])]"
  by (simp add: buckets_def check_inst_buckets_def four_insts_def inst_with_def selected_def
      dict_append2_def port_east_def port_west_def port_far_def)

lemma four_insts_last: "last (concat (map iv_ports four_insts)) = port_far"
  by (simp add: four_insts_def inst_with_def)

lemma no_cell_buckets: "check_cell_buckets [] [] [] = []"
  by (simp add: check_cell_buckets_def)

theorem connectivity_check_orphan_and_overlap_witness:
  "(0, (50, 0), [(port_far, ''wg'')]) \<in> set (buckets (check_inst_buckets [] [] four_insts))
   \<and> (0, (10, 0), [(port_east, ''wg''), (port_west, ''wg''), (port_east, ''wg'')])
       \<in> set (buckets (check_inst_buckets [] [] four_insts))
   \<and> (\<exists>pre post. connectivity_check ''top'' no_mismatch no_mismatch [] four_insts [] []
         = Inr (pre @ [\<lparr> dg_layer = 0, dg_category = ''OrphanPort'',
                          dg_names = [(''wg'', port_far)], dg_polygons = [port_far] \<rparr>] @ post))
   \<and> (\<exists>pre post. connectivity_check ''top'' no_mismatch no_mismatch [] four_insts [] []
         = Inr (pre @ [\<lparr> dg_layer = 0, dg_category = ''portoverlap'',
                          dg_names = [(''wg'', port_east), (''wg'', port_west), (''wg'', port_east)],
                          dg_polygons = [port_east, port_west, port_east] \<rparr>] @ post))"
proof -
  have b1: "(0, (50, 0), [(port_far, ''wg'')]) \<in> set (buckets (check_inst_buckets [] [] four_insts))"
    by (simp add: four_insts_buckets)
  have b2: "(0, (10, 0), [(port_east, ''wg''), (port_west, ''wg''), (port_east, ''wg'')])
       \<in> set (buckets (check_inst_buckets [] [] four_insts))"
    by (simp add: four_insts_buckets)
  have simple: "pv_stored_simple port_far" by (simp add: port_far_def port_east_def)
  from connectivity_check_orphan_and_overlap [OF b1, of "''top''" no_mismatch no_mismatch "[]"]
  have o: "\<exists>pre post. connectivity_check ''top'' no_mismatch no_mismatch [] four_insts [] []
         = Inr (pre @ [\<lparr> dg_layer = 0, dg_category = ''OrphanPort'',
                          dg_names = [(''wg'', port_far)], dg_polygons = [port_far] \<rparr>] @ post)"
    by (auto simp: no_cell_buckets lookup2_def simple)
  from connectivity_check_orphan_and_overlap [OF b2, of "''top''" no_mismatch no_mismatch "[]"]
  have p: "\<exists>pre post. connectivity_check ''top'' no_mismatch no_mismatch [] four_insts [] []
         = Inr (pre @ [\<lparr> dg_layer = 0, dg_category = ''portoverlap'',
                          dg_names = [(''wg'', port_east), (''wg'', port_west), (''wg'', port_east)],
                          dg_polygons = [port_east, port_west, port_east] \<rparr>] @ post)"
    by auto
  from b1 b2 o p show ?thesis by (intro conjI) assumption+
qed


end
